theory Spec2Isabelle
  imports Main "HOL-Library.Multiset"
begin

section \<open>Graph information held by a StartGraph command\<close>

text \<open>
  A location is the triple of \<^verbatim>\<open>ten_loc_t\<close>; its fields are \<^verbatim>\<open>ten_string_t\<close>
  values, compared with \<^verbatim>\<open>ten_string_is_equal\<close> and
  \<^verbatim>\<open>ten_string_is_equal_c_str\<close>, that is by string equality.
\<close>

record ten_loc =
  app_uri :: string
  graph_id :: string
  extension_name :: string

record ten_extension_info =
  ei_loc :: ten_loc
  extension_addon_name :: string
  extension_group_name :: string

record ten_extension_group_info =
  gi_loc :: ten_loc
  extension_group_addon_name :: string
  extension_group_instance_name :: string

datatype TEN_MSG_TYPE =
    TEN_MSG_TYPE_CMD
  | TEN_MSG_TYPE_CMD_START_GRAPH
  | TEN_MSG_TYPE_CMD_CLOSE_APP
  | TEN_MSG_TYPE_CMD_RESULT

text \<open>
  The part of the StartGraph command that \<^verbatim>\<open>extension_context.c\<close> reads: its type,
  its destinations and the two lists behind
  \<^verbatim>\<open>ten_cmd_start_graph_get_extensions_info\<close> and
  \<^verbatim>\<open>ten_cmd_start_graph_get_extension_groups_info\<close>.
\<close>

record ten_msg =
  msg_type :: TEN_MSG_TYPE
  dest_locs :: "ten_loc list"
  extensions_info :: "ten_extension_info list"
  extension_groups_info :: "ten_extension_group_info list"


section \<open>Errors, threads, groups, the context and its engine\<close>

datatype TEN_ERROR_CODE =
    TEN_ERROR_CODE_OK
  | TEN_ERROR_CODE_GENERIC
  | TEN_ERROR_CODE_INVALID_ARGUMENT
  | TEN_ERROR_CODE_INVALID_JSON
  | TEN_ERROR_CODE_TEN_IS_CLOSED
  | TEN_ERROR_CODE_MSG_NOT_CONNECTED
  | TEN_ERROR_CODE_TIMEOUT

record ten_error =
  error_code :: TEN_ERROR_CODE
  error_message :: string

definition ten_error_set :: "ten_error \<Rightarrow> TEN_ERROR_CODE \<Rightarrow> string \<Rightarrow> ten_error" where
  "ten_error_set err code message = err\<lparr>error_code := code, error_message := message\<rparr>"

text \<open>
  An extension thread is attached to one group and one context
  (\<^verbatim>\<open>ten_extension_thread_attach_to_context_and_group\<close>); the back references are
  kept by name: the group's name and the id of the engine that owns the context.
\<close>

record ten_extension_thread =
  thread_extension_group :: string
  thread_extension_context :: string

record ten_app =
  uri :: string
  base_dir :: string
  extension_group_addons :: "string list"

record ten_extension_group =
  name :: string
  addon_host_name :: string
  group_app :: "string option"
  group_extension_context :: "string option"
  extension_addon_and_instance_name_pairs :: "(string \<times> string) list"
  extension_group_info :: "ten_extension_group_info option"
  extension_thread :: "ten_extension_thread option"

text \<open>
  The signature word of the context: \<^verbatim>\<open>ten_extension_context_create\<close> stores
  \<^verbatim>\<open>TEN_EXTENSION_CONTEXT_SIGNATURE\<close> (a constant of a header that is not among the
  sources) and \<^verbatim>\<open>ten_extension_context_destroy\<close> stores 0. Only the two values
  are told apart.
\<close>

datatype ten_signature = TEN_EXTENSION_CONTEXT_SIGNATURE | SIGNATURE_ZERO

record ten_extension_context =
  signature :: ten_signature
  on_closed :: bool
  extension_groups_info_from_graph :: "ten_extension_group_info list"
  extensions_info_from_graph :: "ten_extension_info list"
  extension_threads :: "ten_extension_thread list"
  extension_threads_cnt_of_ready :: nat
  extension_threads_cnt_of_closed :: nat
  extension_threads_total_cnt :: nat

text \<open>
  What the functions of the context do to the outside is recorded in order: the log
  lines (\<^verbatim>\<open>TEN_LOGD\<close>, \<^verbatim>\<open>TEN_LOGE\<close>, \<^verbatim>\<open>TEN_LOGM\<close>) and the calls into
  code that is not part of \<^verbatim>\<open>extension_context.c\<close>.
\<close>

datatype ten_effect =
    TEN_LOGD string
  | TEN_LOGE string
  | TEN_LOGM string
  | ten_extension_thread_start ten_extension_thread
  | ten_extension_thread_close ten_extension_thread
  | ten_env_close
  | on_closed_called

record ten_engine =
  app :: ten_app
  engine_id :: string
  graph_name :: string
  original_start_graph_cmd_of_enabling_engine :: "ten_msg option"
  extension_context :: ten_extension_context
  created_extension_groups :: "ten_extension_group list"
  effects :: "ten_effect list"

definition emit :: "ten_effect list \<Rightarrow> ten_engine \<Rightarrow> ten_engine" where
  "emit es engine = engine\<lparr>effects := effects engine @ es\<rparr>"


section \<open>The functions of extension\_context.c\<close>

text \<open>
  A \<^verbatim>\<open>TEN_ASSERT\<close> that fails aborts: a function that can abort returns an option,
  and \<open>None\<close> is the abort. The sanitizer's thread check of
  \<^verbatim>\<open>ten_extension_context_check_integrity\<close> is not modelled (every call below is
  made on the engine thread); the signature check is.
\<close>

definition ten_extension_context_check_integrity :: "ten_extension_context \<Rightarrow> bool" where
  "ten_extension_context_check_integrity self =
     (signature self = TEN_EXTENSION_CONTEXT_SIGNATURE)"

text \<open>
  \<^verbatim>\<open>ten_extension_context_create\<close> allocates with \<^verbatim>\<open>TEN_MALLOC\<close> and assigns every
  field except \<^verbatim>\<open>extension_threads_total_cnt\<close>, which keeps whatever the allocated
  memory held: that content is the parameter \<open>uninitialized\<close>.
\<close>

definition ten_extension_context_create ::
  "ten_engine \<Rightarrow> nat \<Rightarrow> ten_engine \<times> ten_extension_context" where
  "ten_extension_context_create engine uninitialized =
     (emit [TEN_LOGD (''['' @ engine_id engine @ ''] Create Extension context'')] engine,
      \<lparr> signature = TEN_EXTENSION_CONTEXT_SIGNATURE,
        on_closed = False,
        extension_groups_info_from_graph = [],
        extensions_info_from_graph = [],
        extension_threads = [],
        extension_threads_cnt_of_ready = 0,
        extension_threads_cnt_of_closed = 0,
        extension_threads_total_cnt = uninitialized \<rparr>)"

definition ten_extension_context_destroy ::
  "ten_extension_context \<Rightarrow> ten_extension_context option" where
  "ten_extension_context_destroy self =
     (if \<not> ten_extension_context_check_integrity self then None
      else if length (extension_threads self) \<noteq> 0 then None
      else Some (self\<lparr> extension_groups_info_from_graph := [],
                       extensions_info_from_graph := [],
                       signature := SIGNATURE_ZERO \<rparr>))"

definition ten_extension_context_start :: "ten_engine \<Rightarrow> ten_engine option" where
  "ten_extension_context_start engine =
     (if \<not> ten_extension_context_check_integrity (extension_context engine) then None
      else Some (emit (map ten_extension_thread_start
                         (extension_threads (extension_context engine))) engine))"

definition ten_extension_context_do_close_after_all_extension_threads_are_closed ::
  "ten_engine \<Rightarrow> ten_engine option" where
  "ten_extension_context_do_close_after_all_extension_threads_are_closed engine =
     (if \<not> ten_extension_context_check_integrity (extension_context engine) then None
      else
        (case ten_extension_context_destroy (extension_context engine) of
           None \<Rightarrow> None
         | Some destroyed \<Rightarrow>
             Some ((emit ([ten_env_close] @
                          (if on_closed (extension_context engine)
                           then [on_closed_called] else [])) engine)
                     \<lparr>extension_context := destroyed\<rparr>)))"

definition ten_extension_context_close :: "ten_engine \<Rightarrow> ten_engine option" where
  "ten_extension_context_close engine =
     (if \<not> ten_extension_context_check_integrity (extension_context engine) then None
      else if extension_threads (extension_context engine) = [] then
        ten_extension_context_do_close_after_all_extension_threads_are_closed
          (emit [TEN_LOGD (''['' @ engine_id engine @
                           ''] Try to close extension context'')] engine)
      else
        Some ((emit (TEN_LOGD (''['' @ engine_id engine @
                               ''] Try to close extension context'') #
                     map ten_extension_thread_close
                       (extension_threads (extension_context engine))) engine)
                \<lparr>extension_context := (extension_context engine)
                   \<lparr> extension_threads_cnt_of_closed := 0,
                     extension_threads_total_cnt :=
                       length (extension_threads (extension_context engine)) \<rparr>\<rparr>))"

definition ten_extension_context_could_be_close :: "ten_extension_context \<Rightarrow> bool" where
  "ten_extension_context_could_be_close self =
     (extension_threads_cnt_of_closed self = extension_threads_total_cnt self)"

definition ten_extension_context_do_close :: "ten_engine \<Rightarrow> ten_engine option" where
  "ten_extension_context_do_close engine =
     (if \<not> ten_extension_context_check_integrity (extension_context engine) then None
      else if extension_threads (extension_context engine) \<noteq> [] then None
      else ten_extension_context_do_close_after_all_extension_threads_are_closed engine)"

definition ten_extension_context_on_close :: "ten_engine \<Rightarrow> ten_engine option" where
  "ten_extension_context_on_close engine =
     (if \<not> ten_extension_context_check_integrity (extension_context engine) then None
      else if \<not> ten_extension_context_could_be_close (extension_context engine) then
        Some (emit [TEN_LOGD (''['' @ engine_id engine @
                              ''] Could not close alive extension context'')] engine)
      else
        ten_extension_context_do_close
          (emit [TEN_LOGD (''['' @ engine_id engine @
                           ''] Extension context can be closed now'')] engine))"

definition ten_extension_context_set_on_closed ::
  "ten_extension_context \<Rightarrow> bool \<Rightarrow> ten_extension_context option" where
  "ten_extension_context_set_on_closed self callback =
     (if \<not> ten_extension_context_check_integrity self then None
      else Some (self\<lparr>on_closed := callback\<rparr>))"

text \<open>
  The lookup loop of \<^verbatim>\<open>ten_extension_context_get_extension_info_by_name\<close>: a query
  field is a C string pointer, \<open>None\<close> for \<^verbatim>\<open>NULL\<close>; each \<^verbatim>\<open>continue\<close> goes on
  with the rest of the list and the \<^verbatim>\<open>break\<close> returns the record at hand.
\<close>

fun get_extension_info_by_name_foreach ::
  "string option \<Rightarrow> string option \<Rightarrow> string option \<Rightarrow> ten_extension_info list \<Rightarrow>
   ten_extension_info option" where
  "get_extension_info_by_name_foreach a g n [] = None"
| "get_extension_info_by_name_foreach a g n (extension_info # rest) =
     (if (case a of None \<Rightarrow> False
          | Some s \<Rightarrow> app_uri (ei_loc extension_info) \<noteq> s)
      then get_extension_info_by_name_foreach a g n rest
      else if (case g of None \<Rightarrow> False
               | Some s \<Rightarrow> graph_id (ei_loc extension_info) \<noteq> s)
      then get_extension_info_by_name_foreach a g n rest
      else if (case n of None \<Rightarrow> False
               | Some s \<Rightarrow> extension_name (ei_loc extension_info) \<noteq> s)
      then get_extension_info_by_name_foreach a g n rest
      else Some extension_info)"

text \<open>
  The outer option is the abort of \<^verbatim>\<open>TEN_ASSERT(app_uri && extension_name)\<close> and of
  the integrity check; the inner one is the returned pointer, \<open>None\<close> for \<^verbatim>\<open>NULL\<close>.
\<close>

definition ten_extension_context_get_extension_info_by_name ::
  "ten_extension_context \<Rightarrow> string option \<Rightarrow> string option \<Rightarrow> string option \<Rightarrow>
   ten_extension_info option option" where
  "ten_extension_context_get_extension_info_by_name self a g n =
     (if \<not> ten_extension_context_check_integrity self then None
      else if a = None \<or> n = None then None
      else Some (get_extension_info_by_name_foreach a g n
                   (extensions_info_from_graph self)))"

fun get_extension_group_info_by_name_foreach ::
  "string \<Rightarrow> string \<Rightarrow> ten_extension_group_info list \<Rightarrow>
   ten_extension_group_info option" where
  "get_extension_group_info_by_name_foreach a n [] = None"
| "get_extension_group_info_by_name_foreach a n (info # rest) =
     (if app_uri (gi_loc info) = a \<and> extension_group_instance_name info = n
      then Some info
      else get_extension_group_info_by_name_foreach a n rest)"

definition ten_extension_context_get_extension_group_info_by_name ::
  "ten_extension_context \<Rightarrow> string \<Rightarrow> string \<Rightarrow> ten_extension_group_info option option" where
  "ten_extension_context_get_extension_group_info_by_name self a n =
     (if \<not> ten_extension_context_check_integrity self then None
      else Some (get_extension_group_info_by_name_foreach a n
                   (extension_groups_info_from_graph self)))"

text \<open>
  The two installers swap the context's list with the list they are given
  (\<^verbatim>\<open>ten_list_swap\<close>), after asserting that the context's list is empty: the result
  is the new context together with the new content of the argument list.
\<close>

definition ten_extension_context_add_extensions_info_from_graph ::
  "ten_extension_context \<Rightarrow> ten_extension_info list \<Rightarrow>
   (ten_extension_context \<times> ten_extension_info list) option" where
  "ten_extension_context_add_extensions_info_from_graph self infos =
     (if \<not> ten_extension_context_check_integrity self then None
      else if length (extensions_info_from_graph self) \<noteq> 0 then None
      else Some (self\<lparr>extensions_info_from_graph := infos\<rparr>,
                 extensions_info_from_graph self))"

definition ten_extension_context_add_extension_groups_info_from_graph ::
  "ten_extension_context \<Rightarrow> ten_extension_group_info list \<Rightarrow>
   (ten_extension_context \<times> ten_extension_group_info list) option" where
  "ten_extension_context_add_extension_groups_info_from_graph self infos =
     (if \<not> ten_extension_context_check_integrity self then None
      else if length (extension_groups_info_from_graph self) \<noteq> 0 then None
      else Some (self\<lparr>extension_groups_info_from_graph := infos\<rparr>,
                 extension_groups_info_from_graph self))"

text \<open>
  Both callers pass the two lists of the original StartGraph command, one after the
  other; \<open>install_graph_info\<close> is that pair of calls, writing the swapped-out lists
  back into the command.
\<close>

definition install_graph_info :: "ten_msg \<Rightarrow> ten_engine \<Rightarrow> ten_engine option" where
  "install_graph_info cmd engine =
     (case ten_extension_context_add_extensions_info_from_graph
             (extension_context engine) (extensions_info cmd) of
        None \<Rightarrow> None
      | Some (self1, old_extensions_info) \<Rightarrow>
          (case ten_extension_context_add_extension_groups_info_from_graph
                  self1 (extension_groups_info cmd) of
             None \<Rightarrow> None
           | Some (self2, old_groups_info) \<Rightarrow>
               Some (engine\<lparr> extension_context := self2,
                             original_start_graph_cmd_of_enabling_engine :=
                               Some (cmd\<lparr> extensions_info := old_extensions_info,
                                          extension_groups_info := old_groups_info \<rparr>) \<rparr>)))"

definition dq :: string where
  "dq = [CHR 0x22]"

definition ten_extension_context_log_graph_resources :: "ten_engine \<Rightarrow> ten_engine option" where
  "ten_extension_context_log_graph_resources engine =
     (if \<not> ten_extension_context_check_integrity (extension_context engine) then None
      else Some (emit
        [TEN_LOGM (''[graph resources] {'' @
           dq @ ''app_base_dir'' @ dq @ '': '' @ dq @ base_dir (app engine) @ dq @
           (if uri (app engine) \<noteq> []
            then '', '' @ dq @ ''app_uri'' @ dq @ '': '' @ dq @ uri (app engine) @ dq
            else []) @
           (if graph_name engine \<noteq> []
            then '', '' @ dq @ ''graph_name'' @ dq @ '': '' @ dq @ graph_name engine @ dq
            else []) @
           '', '' @ dq @ ''graph_id'' @ dq @ '': '' @ dq @ engine_id engine @ dq @
           ''}'')] engine))"

text \<open>
  Modelled from the spec: \<^verbatim>\<open>TEN_STR_DEFAULT_EXTENSION_GROUP\<close> is a constant of
  \<^verbatim>\<open>constant_str.h\<close>, which is not among the sources; section 4.2 names the
  built-in group addon \<^verbatim>\<open>default_extension_group\<close>.
\<close>

definition TEN_STR_DEFAULT_EXTENSION_GROUP :: string where
  "TEN_STR_DEFAULT_EXTENSION_GROUP = ''default_extension_group''"

text \<open>
  Modelled from the spec: the StartGraph accessor with this name is called by
  \<^verbatim>\<open>ten_extension_context_create_extension_group_done\<close> but defined in a file that
  is not among the sources. Section 4.2, step 4: the list of
  (extension addon name, extension instance name) pairs that the StartGraph command
  scheduled into the group, the group being named by app uri, graph id and group name.
\<close>

definition
  ten_cmd_start_graph_get_extension_addon_and_instance_name_pairs_of_specified_extension_group ::
  "ten_msg \<Rightarrow> string \<Rightarrow> string \<Rightarrow> string \<Rightarrow> (string \<times> string) list" where
  "ten_cmd_start_graph_get_extension_addon_and_instance_name_pairs_of_specified_extension_group
     cmd a g group_name =
     map (\<lambda>info. (extension_addon_name info, extension_name (ei_loc info)))
       (filter (\<lambda>info. extension_group_name info = group_name \<and>
                        app_uri (ei_loc info) = a \<and> graph_id (ei_loc info) = g)
          (extensions_info cmd))"

text \<open>
  The block of \<^verbatim>\<open>ten_extension_context_create_extension_group_done\<close> that fills a
  group of the default addon from the StartGraph command; its \<^verbatim>\<open>TEN_ASSERT\<close> wants
  a StartGraph command with exactly one destination.
\<close>

definition fill_default_extension_group ::
  "ten_msg \<Rightarrow> ten_extension_group \<Rightarrow> ten_extension_group option" where
  "fill_default_extension_group cmd g =
     (if addon_host_name g = TEN_STR_DEFAULT_EXTENSION_GROUP then
        (if msg_type cmd = TEN_MSG_TYPE_CMD_START_GRAPH \<and> length (dest_locs cmd) = 1 then
           (case dest_locs cmd of
              [] \<Rightarrow> None
            | dest_loc # _ \<Rightarrow>
                Some (g\<lparr>extension_addon_and_instance_name_pairs :=
                  ten_cmd_start_graph_get_extension_addon_and_instance_name_pairs_of_specified_extension_group
                    cmd (app_uri dest_loc) (graph_id dest_loc) (name g)\<rparr>))
         else None)
      else Some g)"

definition extension_groups_cnt_of_the_current_app :: "ten_engine \<Rightarrow> ten_msg \<Rightarrow> nat" where
  "extension_groups_cnt_of_the_current_app engine cmd =
     length (filter (\<lambda>info. app_uri (gi_loc info) = uri (app engine))
               (extension_groups_info cmd))"

text \<open>The branch taken when all extension groups are created.\<close>

definition all_extension_groups_created ::
  "ten_msg \<Rightarrow> ten_engine \<Rightarrow> ten_extension_group \<Rightarrow>
   (ten_engine \<times> ten_extension_group) option" where
  "all_extension_groups_created cmd engine g =
     (case install_graph_info cmd engine of
        None \<Rightarrow> None
      | Some engine1 \<Rightarrow>
          (case ten_extension_context_get_extension_group_info_by_name
                  (extension_context engine1) (uri (app engine1)) (name g) of
             None \<Rightarrow> None
           | Some found \<Rightarrow>
               (case found of
                  None \<Rightarrow> None
                | Some info \<Rightarrow>
                    (case ten_extension_context_log_graph_resources engine1 of
                       None \<Rightarrow> None
                     | Some engine2 \<Rightarrow>
                         (case ten_extension_context_start engine2 of
                            None \<Rightarrow> None
                          | Some engine3 \<Rightarrow>
                              Some (engine3, g\<lparr>extension_group_info := Some info\<rparr>))))))"

definition register_extension_thread ::
  "ten_extension_thread \<Rightarrow> ten_engine \<Rightarrow> ten_engine" where
  "register_extension_thread thread engine =
     engine\<lparr>extension_context := (extension_context engine)
       \<lparr>extension_threads := extension_threads (extension_context engine) @ [thread]\<rparr>\<rparr>"

definition ten_extension_context_create_extension_group_done ::
  "ten_engine \<Rightarrow> ten_extension_group \<Rightarrow> (ten_engine \<times> ten_extension_group) option" where
  "ten_extension_context_create_extension_group_done engine g =
     (if \<not> ten_extension_context_check_integrity (extension_context engine) then None
      else
        (case original_start_graph_cmd_of_enabling_engine engine of
           None \<Rightarrow> None
         | Some cmd \<Rightarrow>
             (case fill_default_extension_group cmd
                     (g\<lparr> group_app := Some (uri (app engine)),
                         group_extension_context := Some (engine_id engine) \<rparr>) of
                None \<Rightarrow> None
              | Some g1 \<Rightarrow>
                  (let thread = \<lparr> thread_extension_group = name g1,
                                  thread_extension_context = engine_id engine \<rparr>;
                       g2 = g1\<lparr>extension_thread := Some thread\<rparr>;
                       engine1 = register_extension_thread thread engine
                   in if extension_groups_cnt_of_the_current_app engine1 cmd =
                         length (extension_threads (extension_context engine1))
                      then all_extension_groups_created cmd engine1 g2
                      else Some (engine1, g2)))))"

text \<open>
  Modelled from the spec: \<^verbatim>\<open>ten_addon_create_extension_group\<close> is defined in the
  addon code, which is not among the sources. Section 4.2, step 3 and the failure
  semantics: the call resolves the group addon by name among the registered group
  addons and fails when there is none; when it succeeds the group is created
  asynchronously, and the completion callback runs later on the engine thread with the
  created group, which carries the instance name and the name of its addon host. The
  groups whose callback has not run yet are queued in \<open>created_extension_groups\<close>.
\<close>

definition ten_addon_create_extension_group ::
  "ten_engine \<Rightarrow> string \<Rightarrow> string \<Rightarrow> bool \<times> ten_engine" where
  "ten_addon_create_extension_group engine addon_name instance_name =
     (if addon_name \<in> set (extension_group_addons (app engine)) then
        (True, engine\<lparr>created_extension_groups := created_extension_groups engine @
           [\<lparr> name = instance_name,
              addon_host_name = addon_name,
              group_app = None,
              group_extension_context = None,
              extension_addon_and_instance_name_pairs = [],
              extension_group_info = None,
              extension_thread = None \<rparr>]\<rparr>)
      else (False, engine))"

text \<open>
  The loop of \<^verbatim>\<open>ten_extension_context_start_extension_group\<close> over the group infos
  of the command. \<open>err\<close> is the error pointer, \<open>None\<close> for \<^verbatim>\<open>NULL\<close>. The result is
  the value of \<^verbatim>\<open>result\<close>, the error behind the pointer and the engine.
\<close>

fun start_extension_group_foreach ::
  "ten_extension_group_info list \<Rightarrow> ten_error option \<Rightarrow> ten_engine \<Rightarrow>
   bool \<times> ten_error option \<times> ten_engine" where
  "start_extension_group_foreach [] err engine = (True, err, engine)"
| "start_extension_group_foreach (info # rest) err engine =
     (if app_uri (gi_loc info) = uri (app engine) then
        (if fst (ten_addon_create_extension_group engine
                   (extension_group_addon_name info) (extension_group_instance_name info))
         then start_extension_group_foreach rest err
                (snd (ten_addon_create_extension_group engine
                   (extension_group_addon_name info) (extension_group_instance_name info)))
         else
           (False,
            map_option (\<lambda>e. ten_error_set e TEN_ERROR_CODE_GENERIC
                               (''Unable to find '' @ extension_group_addon_name info)) err,
            emit [TEN_LOGE (''['' @ engine_id engine @
                    ''] Failed to start the extension group, because unable to find '' @
                    ''the specified extension group addon: '' @
                    extension_group_addon_name info)]
              (snd (ten_addon_create_extension_group engine
                   (extension_group_addon_name info) (extension_group_instance_name info)))))
      else start_extension_group_foreach rest err engine)"

definition ten_extension_context_start_extension_group ::
  "ten_engine \<Rightarrow> ten_error option \<Rightarrow> (bool \<times> ten_error option \<times> ten_engine) option" where
  "ten_extension_context_start_extension_group engine err =
     (if \<not> ten_extension_context_check_integrity (extension_context engine) then None
      else
        (case original_start_graph_cmd_of_enabling_engine engine of
           None \<Rightarrow> None
         | Some cmd \<Rightarrow>
             if extension_groups_info cmd = [] then
               (case install_graph_info cmd engine of
                  None \<Rightarrow> None
                | Some engine1 \<Rightarrow>
                    (case ten_extension_context_start engine1 of
                       None \<Rightarrow> None
                     | Some engine2 \<Rightarrow> Some (True, err, engine2)))
             else Some (start_extension_group_foreach (extension_groups_info cmd) err engine)))"

definition ten_extension_context_get_extension_group_name ::
  "ten_extension_context \<Rightarrow> string option \<Rightarrow> string option \<Rightarrow> string option \<Rightarrow>
   string option option" where
  "ten_extension_context_get_extension_group_name self a g n =
     (if \<not> ten_extension_context_check_integrity self then None
      else
        (case ten_extension_context_get_extension_info_by_name self a g n of
           None \<Rightarrow> None
         | Some found \<Rightarrow>
             (case found of
                None \<Rightarrow> Some None
              | Some info \<Rightarrow> Some (Some (extension_group_name info)))))"


section \<open>The environment of the context: callbacks and reports\<close>

text \<open>
  The completion callbacks of the created groups run one after the other on the engine
  thread; \<open>create_extension_group_done_each\<close> runs
  \<^verbatim>\<open>ten_extension_context_create_extension_group_done\<close> for the groups of a list,
  in the order of the list, and returns the groups as the callbacks left them.
\<close>

fun create_extension_group_done_each ::
  "ten_engine \<Rightarrow> ten_extension_group list \<Rightarrow>
   (ten_engine \<times> ten_extension_group list) option" where
  "create_extension_group_done_each engine [] = Some (engine, [])"
| "create_extension_group_done_each engine (g # gs) =
     (case ten_extension_context_create_extension_group_done engine g of
        None \<Rightarrow> None
      | Some (engine1, g1) \<Rightarrow>
          (case create_extension_group_done_each engine1 gs of
             None \<Rightarrow> None
           | Some (engine2, gs1) \<Rightarrow> Some (engine2, g1 # gs1)))"

text \<open>
  Modelled from the spec: the engine's handler of the report that an extension thread
  is closed is not among the sources (only \<^verbatim>\<open>ten_extension_context_on_close\<close>,
  which decides whether the context can close, is). Section 4.2, close sequence, step
  3: each thread reports back when it reaches Closed; the engine increments
  \<^verbatim>\<open>closed_count\<close> and, when it equals \<^verbatim>\<open>total_count\<close>, runs the terminal step.
  The reported thread leaves \<^verbatim>\<open>extension_threads\<close>: the source asserts that list
  to be empty before the terminal step.
\<close>

definition ten_engine_on_extension_thread_closed ::
  "ten_engine \<Rightarrow> ten_extension_thread \<Rightarrow> ten_engine option" where
  "ten_engine_on_extension_thread_closed engine thread =
     (if \<not> ten_extension_context_check_integrity (extension_context engine) then None
      else ten_extension_context_on_close
        (engine\<lparr>extension_context := (extension_context engine)
           \<lparr> extension_threads := remove1 thread (extension_threads (extension_context engine)),
             extension_threads_cnt_of_closed :=
               extension_threads_cnt_of_closed (extension_context engine) + 1 \<rparr>\<rparr>))"

fun extension_threads_closed ::
  "ten_engine \<Rightarrow> ten_extension_thread list \<Rightarrow> ten_engine option" where
  "extension_threads_closed engine [] = Some engine"
| "extension_threads_closed engine (thread # rest) =
     (case ten_engine_on_extension_thread_closed engine thread of
        None \<Rightarrow> None
      | Some engine1 \<Rightarrow> extension_threads_closed engine1 rest)"

text \<open>The calls an engine has made so far, without its log lines.\<close>

fun is_log :: "ten_effect \<Rightarrow> bool" where
  "is_log (TEN_LOGD _) = True"
| "is_log (TEN_LOGE _) = True"
| "is_log (TEN_LOGM _) = True"
| "is_log _ = False"

definition calls :: "ten_engine \<Rightarrow> ten_effect list" where
  "calls engine = filter (\<lambda>e. \<not> is_log e) (effects engine)"

text \<open>The group that a successful creation request hands to the completion callback.\<close>

definition created_group :: "ten_extension_group_info \<Rightarrow> ten_extension_group" where
  "created_group info =
     \<lparr> name = extension_group_instance_name info,
       addon_host_name = extension_group_addon_name info,
       group_app = None,
       group_extension_context = None,
       extension_addon_and_instance_name_pairs = [],
       extension_group_info = None,
       extension_thread = None \<rparr>"

text \<open>The group infos of a command that belong to the app of the engine.\<close>

definition local_groups_info :: "ten_engine \<Rightarrow> ten_msg \<Rightarrow> ten_extension_group_info list" where
  "local_groups_info engine cmd =
     filter (\<lambda>info. app_uri (gi_loc info) = uri (app engine)) (extension_groups_info cmd)"


text \<open>The thread that the completion callback creates for a group and attaches to it.\<close>

definition extension_thread_of :: "ten_engine \<Rightarrow> ten_extension_group \<Rightarrow> ten_extension_thread" where
  "extension_thread_of engine g =
     \<lparr> thread_extension_group = name g, thread_extension_context = engine_id engine \<rparr>"


section \<open>The Python tester binding of log (env\_tester\_log.c)\<close>

text \<open>
  The Python objects that the binding tells apart, and the units of the format
  \<^verbatim>\<open>izzizsbO\<close> as \<^verbatim>\<open>PyArg_ParseTuple\<close> converts them: \<^verbatim>\<open>i\<close> wants an integer
  that fits a C int, \<^verbatim>\<open>z\<close> a string or \<^verbatim>\<open>None\<close>, \<^verbatim>\<open>s\<close> a string, \<^verbatim>\<open>b\<close> an
  integer that fits an unsigned char, \<^verbatim>\<open>O\<close> any object. A string with an embedded
  null character is refused. \<open>None\<close> is a failed conversion.

  The second \<^verbatim>\<open>i\<close> is stored through the address of \<^verbatim>\<open>size_t line_no = 0\<close>: the
  four bytes of the C int overwrite the low half of the eight-byte word (little-endian
  layout), so the line number read back is the integer modulo \<open>2 ^ 32\<close>; a negative
  line number \<open>- 1\<close> is posted as 4294967295.
\<close>

datatype py_object =
    PyLong int
  | PyUnicode string
  | Py_None
  | PyBytes string
  | PyOther

fun parse_i :: "py_object \<Rightarrow> int option" where
  "parse_i (PyLong v) = (if - (2 ^ 31) \<le> v \<and> v < 2 ^ 31 then Some v else None)"
| "parse_i _ = None"

fun parse_z :: "py_object \<Rightarrow> string option option" where
  "parse_z Py_None = Some None"
| "parse_z (PyUnicode s) = (if CHR 0x00 \<in> set s then None else Some (Some s))"
| "parse_z _ = None"

fun parse_s :: "py_object \<Rightarrow> string option" where
  "parse_s (PyUnicode s) = (if CHR 0x00 \<in> set s then None else Some s)"
| "parse_s _ = None"

fun parse_b :: "py_object \<Rightarrow> int option" where
  "parse_b (PyLong v) = (if 0 \<le> v \<and> v \<le> 255 then Some v else None)"
| "parse_b _ = None"

record log_args =
  arg_level :: int
  arg_func_name :: "string option"
  arg_file_name :: "string option"
  arg_line_no :: nat
  arg_category :: "string option"
  arg_msg :: string
  arg_sync :: bool
  arg_fields_buf_obj :: py_object

fun PyArg_ParseTuple_izzizsbO :: "py_object list \<Rightarrow> log_args option" where
  "PyArg_ParseTuple_izzizsbO [a1, a2, a3, a4, a5, a6, a7, a8] =
     (case parse_i a1 of None \<Rightarrow> None | Some v1 \<Rightarrow>
     (case parse_z a2 of None \<Rightarrow> None | Some v2 \<Rightarrow>
     (case parse_z a3 of None \<Rightarrow> None | Some v3 \<Rightarrow>
     (case parse_i a4 of None \<Rightarrow> None | Some v4 \<Rightarrow>
     (case parse_z a5 of None \<Rightarrow> None | Some v5 \<Rightarrow>
     (case parse_s a6 of None \<Rightarrow> None | Some v6 \<Rightarrow>
     (case parse_b a7 of None \<Rightarrow> None | Some v7 \<Rightarrow>
        Some \<lparr> arg_level = v1, arg_func_name = v2, arg_file_name = v3,
               arg_line_no = nat (v4 mod 2 ^ 32),
               arg_category = v5, arg_msg = v6, arg_sync = (v7 \<noteq> 0),
               arg_fields_buf_obj = a8 \<rparr>)))))))"
| "PyArg_ParseTuple_izzizsbO _ = None"

text \<open>
  The context handed to the proxy task. A \<^verbatim>\<open>NULL\<close> string becomes the empty
  string; the fields buffer is copied when it is given and not empty.
\<close>

record ten_env_tester_notify_log_ctx =
  level :: int
  func_name :: string
  file_name :: string
  line_no :: nat
  msg :: string
  category :: string
  completed :: bool
  fields_buf :: "string option"
  fields_buf_size :: nat

definition ten_env_tester_notify_log_ctx_create ::
  "int \<Rightarrow> string option \<Rightarrow> string option \<Rightarrow> nat \<Rightarrow> string option \<Rightarrow> string option \<Rightarrow>
   bool \<Rightarrow> string option \<Rightarrow> nat \<Rightarrow> ten_env_tester_notify_log_ctx" where
  "ten_env_tester_notify_log_ctx_create lv fn fl ln m c sync buf buf_size =
     \<lparr> level = lv,
       func_name = (case fn of None \<Rightarrow> [] | Some s \<Rightarrow> s),
       file_name = (case fl of None \<Rightarrow> [] | Some s \<Rightarrow> s),
       line_no = ln,
       msg = (case m of None \<Rightarrow> [] | Some s \<Rightarrow> s),
       category = (case c of None \<Rightarrow> [] | Some s \<Rightarrow> s),
       completed = sync,
       fields_buf = (if buf \<noteq> None \<and> buf_size > 0 then buf else None),
       fields_buf_size = (if buf \<noteq> None \<and> buf_size > 0 then buf_size else 0) \<rparr>"

text \<open>
  What the binding hands back to Python: a raised \<^verbatim>\<open>ValueError\<close>
  (\<^verbatim>\<open>ten_py_raise_py_value_error_exception\<close>), an error object wrapping a
  \<^verbatim>\<open>ten_error_t\<close> (\<^verbatim>\<open>ten_py_error_wrap\<close>), or \<^verbatim>\<open>None\<close>.
\<close>

datatype py_result =
    Raise_ValueError string
  | Return_Error ten_error
  | Return_None

text \<open>
  The proxy to the tester: \<^verbatim>\<open>ten_env_tester_proxy_notify\<close> is not among the
  sources; whether it accepts a task, and the error it sets when it does not, is a
  parameter of the proxy.
\<close>

record ten_env_tester_proxy =
  notify_refused :: "ten_error option"

record ten_py_ten_env_tester =
  c_ten_env_tester_proxy :: "ten_env_tester_proxy option"

text \<open>
  \<^verbatim>\<open>ten_py_ten_env_tester_log\<close>: the result for Python and the tasks posted to the
  tester's thread through the proxy.
\<close>

fun fields_buf_of :: "py_object \<Rightarrow> string option option" where
  "fields_buf_of Py_None = Some None"
| "fields_buf_of (PyBytes b) = Some (Some b)"
| "fields_buf_of _ = None"

definition ten_py_ten_env_tester_log ::
  "ten_py_ten_env_tester \<Rightarrow> py_object list \<Rightarrow>
   py_result \<times> ten_env_tester_notify_log_ctx list" where
  "ten_py_ten_env_tester_log self args =
     (if length args \<noteq> 8 then
        (Raise_ValueError ''Invalid argument count when ten_env_tester.log.'', [])
      else
        (case PyArg_ParseTuple_izzizsbO args of
           None \<Rightarrow> (Raise_ValueError ''Failed to parse argument when ten_env_tester.log.'', [])
         | Some a \<Rightarrow>
             (case c_ten_env_tester_proxy self of
                None \<Rightarrow>
                  (Return_Error
                     (ten_error_set \<lparr> error_code = TEN_ERROR_CODE_OK, error_message = [] \<rparr>
                        TEN_ERROR_CODE_TEN_IS_CLOSED
                        ''ten_env_tester.log() failed because ten is closed.''), [])
              | Some proxy \<Rightarrow>
                  (case fields_buf_of (arg_fields_buf_obj a) of
                     None \<Rightarrow> (Raise_ValueError ''fields_buf must be bytes or None.'', [])
                   | Some buf \<Rightarrow>
                       (case notify_refused proxy of
                          Some err \<Rightarrow> (Return_Error err, [])
                        | None \<Rightarrow>
                            (Return_None,
                             [ten_env_tester_notify_log_ctx_create (arg_level a)
                                (arg_func_name a) (arg_file_name a) (arg_line_no a)
                                (Some (arg_msg a)) (arg_category a) (arg_sync a) buf
                                (case buf of None \<Rightarrow> 0 | Some b \<Rightarrow> length b)]))))))"




section \<open>The two extensions of the long-running app\<close>

text \<open>
  A JSON property value as the extensions write it; a number with a fraction is kept as
  its literal.
\<close>

datatype json_value =
    J_string string
  | J_int int
  | J_number_literal string
  | J_bool bool

record cpp_cmd =
  cmd_type :: TEN_MSG_TYPE
  cmd_name :: string
  cmd_dests :: "ten_loc list"
  cmd_property :: "(string \<times> json_value) list"

datatype TEN_STATUS_CODE = TEN_STATUS_CODE_OK | TEN_STATUS_CODE_ERROR

text \<open>What a callback of an extension does through its \<^verbatim>\<open>ten_env\<close>, in order.\<close>

datatype ten_env_call =
    on_start_done
  | send_cmd cpp_cmd
  | return_result TEN_STATUS_CODE string
  | TEN_ENV_LOG_INFO string "(string \<times> json_value) list option"
  | ten_random_sleep_range_ms nat nat
  | on_stop_done
  | on_deinit_done

definition test_cmd_from_1 :: cpp_cmd where
  "test_cmd_from_1 =
     \<lparr> cmd_type = TEN_MSG_TYPE_CMD, cmd_name = ''test_cmd_from_1'', cmd_dests = [],
       cmd_property =
         [(''string_field'', J_string ''hello world''),
          (''int_field'', J_int 42),
          (''float_field'', J_number_literal ''3.14159''),
          (''bool_field'', J_bool True),
          (''negative_int'', J_int (- 100)),
          (''large_number'', J_int 9223372036854775807)] \<rparr>"

definition test_cmd_from_2 :: cpp_cmd where
  "test_cmd_from_2 =
     \<lparr> cmd_type = TEN_MSG_TYPE_CMD, cmd_name = ''test_cmd_from_2'', cmd_dests = [],
       cmd_property =
         [(''string_field'', J_string ''test_cmd_from_2 hello world''),
          (''int_field'', J_int 43),
          (''float_field'', J_number_literal ''3.1415926''),
          (''bool_field'', J_bool False),
          (''negative_int'', J_int (- 101)),
          (''large_number'', J_int 9223372036854775807)] \<rparr>"

text \<open>
  \<^verbatim>\<open>close_app_cmd_t::create()\<close> followed by \<^verbatim>\<open>set_dests({{""}})\<close>: one destination,
  built from the empty app uri alone.
\<close>

definition close_app :: cpp_cmd where
  "close_app =
     \<lparr> cmd_type = TEN_MSG_TYPE_CMD_CLOSE_APP, cmd_name = [],
       cmd_dests = [\<lparr> app_uri = [], graph_id = [], extension_name = [] \<rparr>],
       cmd_property = [] \<rparr>"

text \<open>
  Extension 1 (\<^verbatim>\<open>extension_1/src/main.cc\<close>). Its state is the counter \<^verbatim>\<open>cnt\<close>;
  \<^verbatim>\<open>on_cmd\<close> returns the new counter and the calls made.
\<close>

definition extension_1_on_start :: "ten_env_call list" where
  "extension_1_on_start = [on_start_done, send_cmd test_cmd_from_1]"

definition extension_1_on_cmd :: "nat \<Rightarrow> cpp_cmd \<Rightarrow> nat \<times> ten_env_call list" where
  "extension_1_on_cmd cnt cmd =
     (if cmd_name cmd = ''test_cmd_from_2'' then
        (if cnt < 100 then
           (cnt + 1,
            [TEN_ENV_LOG_INFO ''test_cmd_from_2 received with detailed fields''
               (Some (cmd_property cmd)),
             return_result TEN_STATUS_CODE_OK (cmd_name cmd),
             ten_random_sleep_range_ms 1000 2000,
             TEN_ENV_LOG_INFO ''test_cmd_from_1 sent'' None,
             send_cmd test_cmd_from_1])
         else
           (cnt,
            [TEN_ENV_LOG_INFO ''test_cmd_from_2 received with detailed fields''
               (Some (cmd_property cmd)),
             return_result TEN_STATUS_CODE_OK (cmd_name cmd),
             ten_random_sleep_range_ms 1000 2000,
             send_cmd close_app]))
      else (cnt, []))"

text \<open>Extension 2 (\<^verbatim>\<open>extension_2/src/main.cc\<close>) has no state.\<close>

definition extension_2_on_cmd :: "cpp_cmd \<Rightarrow> ten_env_call list" where
  "extension_2_on_cmd cmd =
     (if cmd_name cmd = ''test_cmd_from_1'' then
        [TEN_ENV_LOG_INFO ''test_cmd_from_1 received with detailed fields''
           (Some (cmd_property cmd)),
         return_result TEN_STATUS_CODE_OK (cmd_name cmd),
         ten_random_sleep_range_ms 1000 2000,
         TEN_ENV_LOG_INFO ''test_cmd_from_2 sent'' None,
         send_cmd test_cmd_from_2]
      else [])"

text \<open>
  Modelled from the spec: the runtime that hosts the two extensions (the app, its
  graph and the extension threads) is not among the sources. Section 8, scenario 3:
  what extension 1 sends goes to extension 2 and what extension 2 sends comes back to
  extension 1. Section 4.2, routing: a destination with an empty app uri is local, so
  the CloseApp command closes this app. Section 4.3, close: the thread walks its
  extensions in reverse creation order through \<^verbatim>\<open>on_stop\<close>, \<^verbatim>\<open>on_stop_done\<close>,
  \<^verbatim>\<open>on_deinit\<close>, \<^verbatim>\<open>on_deinit_done\<close> (neither extension overrides these
  callbacks). Section 6: the process exits 0 on a clean shutdown.
\<close>

datatype extension_id = Extension_1 | Extension_2

record long_running_app =
  cnt :: nat
  in_flight :: "(extension_id \<times> cpp_cmd) list"
  calls_made :: "(extension_id \<times> ten_env_call) list"
  exit_status :: "int option"

definition commands_sent :: "ten_env_call list \<Rightarrow> cpp_cmd list" where
  "commands_sent cs = concat (map (\<lambda>c. case c of send_cmd m \<Rightarrow> [m] | _ \<Rightarrow> []) cs)"

definition close_requested :: "cpp_cmd list \<Rightarrow> bool" where
  "close_requested ms =
     (\<exists>m \<in> set ms. cmd_type m = TEN_MSG_TYPE_CMD_CLOSE_APP \<and>
        (\<exists>d \<in> set (cmd_dests m). app_uri d = []))"

definition app_close :: "long_running_app \<Rightarrow> long_running_app" where
  "app_close a =
     a\<lparr> in_flight := [],
        calls_made := calls_made a @
          [(Extension_2, on_stop_done), (Extension_2, on_deinit_done),
           (Extension_1, on_stop_done), (Extension_1, on_deinit_done)],
        exit_status := Some 0 \<rparr>"

definition route :: "extension_id \<Rightarrow> cpp_cmd list \<Rightarrow> (extension_id \<times> cpp_cmd) list" where
  "route sender ms =
     map (\<lambda>m. (case sender of Extension_1 \<Rightarrow> Extension_2 | Extension_2 \<Rightarrow> Extension_1, m))
       (filter (\<lambda>m. cmd_type m = TEN_MSG_TYPE_CMD) ms)"

definition after_callback ::
  "extension_id \<Rightarrow> ten_env_call list \<Rightarrow> long_running_app \<Rightarrow> long_running_app" where
  "after_callback ext cs a =
     (let a1 = a\<lparr> calls_made := calls_made a @ map (Pair ext) cs,
                  in_flight := in_flight a @ route ext (commands_sent cs) \<rparr>
      in if close_requested (commands_sent cs) then app_close a1 else a1)"

definition app_start :: long_running_app where
  "app_start =
     after_callback Extension_1 extension_1_on_start
       \<lparr> cnt = 0, in_flight = [], calls_made = [], exit_status = None \<rparr>"

text \<open>One delivery: the oldest command in flight reaches the \<^verbatim>\<open>on_cmd\<close> of its target.\<close>

definition deliver :: "long_running_app \<Rightarrow> long_running_app" where
  "deliver a =
     (case in_flight a of
        [] \<Rightarrow> a
      | (Extension_1, m) # rest \<Rightarrow>
          after_callback Extension_1 (snd (extension_1_on_cmd (cnt a) m))
            (a\<lparr> in_flight := rest, cnt := fst (extension_1_on_cmd (cnt a) m) \<rparr>)
      | (Extension_2, m) # rest \<Rightarrow>
          after_callback Extension_2 (extension_2_on_cmd m) (a\<lparr> in_flight := rest \<rparr>))"

text \<open>
  The run of the app with fuel: it ends when the process has exited; \<open>None\<close> says
  that the fuel ran out before.
\<close>

fun run :: "nat \<Rightarrow> long_running_app \<Rightarrow> long_running_app option" where
  "run 0 a = (if exit_status a \<noteq> None then Some a else None)"
| "run (Suc fuel) a = (if exit_status a \<noteq> None then Some a else run fuel (deliver a))"

text \<open>A round trip: one delivery to extension 2 and the delivery of its answer to extension 1.\<close>

fun round_trips :: "nat \<Rightarrow> long_running_app \<Rightarrow> long_running_app" where
  "round_trips 0 a = a"
| "round_trips (Suc n) a = deliver (deliver (round_trips n a))"

definition sent_by :: "extension_id \<Rightarrow> long_running_app \<Rightarrow> cpp_cmd list" where
  "sent_by ext a =
     commands_sent (map snd (filter (\<lambda>p. fst p = ext) (calls_made a)))"

text \<open>
  The calls of one round trip that ends with a re-send: extension 2 handles
  \<^verbatim>\<open>test_cmd_from_1\<close>, then extension 1 handles \<^verbatim>\<open>test_cmd_from_2\<close> with a counter
  below 100.
\<close>

definition resend_round :: "(extension_id \<times> ten_env_call) list" where
  "resend_round =
     map (Pair Extension_2) (extension_2_on_cmd test_cmd_from_1) @
     map (Pair Extension_1) (snd (extension_1_on_cmd 0 test_cmd_from_2))"

definition closing_round :: "(extension_id \<times> ten_env_call) list" where
  "closing_round =
     map (Pair Extension_2) (extension_2_on_cmd test_cmd_from_1) @
     map (Pair Extension_1) (snd (extension_1_on_cmd 100 test_cmd_from_2))"


text \<open>
  The commands among a list of tagged calls that one extension sent; the calls made
  before the first delivery; the app with \<open>k\<close> round trips behind it and the next
  \<^verbatim>\<open>test_cmd_from_1\<close> in flight; the app after its exit.
\<close>

definition sent_in :: "extension_id \<Rightarrow> (extension_id \<times> ten_env_call) list \<Rightarrow> cpp_cmd list" where
  "sent_in ext cs = commands_sent (map snd (filter (\<lambda>p. fst p = ext) cs))"

definition start_calls :: "(extension_id \<times> ten_env_call) list" where
  "start_calls = [(Extension_1, on_start_done), (Extension_1, send_cmd test_cmd_from_1)]"

definition waiting :: "nat \<Rightarrow> long_running_app" where
  "waiting k =
     \<lparr> cnt = k, in_flight = [(Extension_2, test_cmd_from_1)],
       calls_made = start_calls @ concat (replicate k resend_round),
       exit_status = None \<rparr>"

definition exited :: long_running_app where
  "exited =
     \<lparr> cnt = 100, in_flight = [],
       calls_made = start_calls @ concat (replicate 100 resend_round) @ closing_round @
         [(Extension_2, on_stop_done), (Extension_2, on_deinit_done),
          (Extension_1, on_stop_done), (Extension_1, on_deinit_done)],
       exit_status = Some 0 \<rparr>"


section \<open>The matchers of a log handler\<close>

text \<open>
  Modelled from the spec: the structured logger is not among the sources (only two
  tests that configure it are). Section 4.5: a rule is
  \<^verbatim>\<open>{ category?: glob, level: off|trace|debug|info|warn|error|fatal }\<close>; a glob uses
  \<^verbatim>\<open>*\<close> for any run of characters and \<^verbatim>\<open>?\<close> for one character, and \<^verbatim>\<open>:\<close> is
  not a separator.
\<close>

datatype log_level = LOG_TRACE | LOG_DEBUG | LOG_INFO | LOG_WARN | LOG_ERROR | LOG_FATAL

fun level_rank :: "log_level \<Rightarrow> nat" where
  "level_rank LOG_TRACE = 0"
| "level_rank LOG_DEBUG = 1"
| "level_rank LOG_INFO = 2"
| "level_rank LOG_WARN = 3"
| "level_rank LOG_ERROR = 4"
| "level_rank LOG_FATAL = 5"

datatype rule_level = LEVEL_OFF | LEVEL_FROM log_level

record log_rule =
  rule_category :: "string option"
  rule_level :: rule_level

record log_event =
  event_level :: log_level
  event_category :: string
  event_message :: string

fun glob_match :: "string \<Rightarrow> string \<Rightarrow> bool" where
  "glob_match [] s = (s = [])"
| "glob_match (p # ps) [] = (p = CHR ''*'' \<and> glob_match ps [])"
| "glob_match (p # ps) (c # cs) =
     (if p = CHR ''*'' then glob_match ps (c # cs) \<or> glob_match (p # ps) cs
      else if p = CHR ''?'' then glob_match ps cs
      else p = c \<and> glob_match ps cs)"

text \<open>
  Modelled from the spec: section 4.5, ``Ordered list of rules; first matching rule
  wins. An event matches a rule if (a) rule has no category or the event category
  matches the glob, and (b) the event level is at least the rule level (off means
  drop). If no rule matches, the event is dropped for this handler.'' The rule that
  wins is the first one whose category condition (a) holds, and (b) is its verdict:
  the event is emitted when its level is at least the level of that rule, and a rule at
  level off drops it. This is the reading under which ``off means drop'' says what a
  rule at level off does and scenario 4 of section 8 holds: were a rule passed over
  whenever (b) fails, the rule \<^verbatim>\<open>{category: ten:runtime, level: off}\<close> could drop
  nothing.
\<close>

definition category_matches :: "log_rule \<Rightarrow> log_event \<Rightarrow> bool" where
  "category_matches r ev =
     (case rule_category r of None \<Rightarrow> True | Some g \<Rightarrow> glob_match g (event_category ev))"

definition level_passes :: "log_rule \<Rightarrow> log_event \<Rightarrow> bool" where
  "level_passes r ev =
     (case rule_level r of
        LEVEL_OFF \<Rightarrow> False
      | LEVEL_FROM l \<Rightarrow> level_rank l \<le> level_rank (event_level ev))"

fun handler_emits :: "log_rule list \<Rightarrow> log_event \<Rightarrow> bool" where
  "handler_emits [] ev = False"
| "handler_emits (r # rs) ev =
     (if category_matches r ev then level_passes r ev else handler_emits rs ev)"

text \<open>
  The other way to read the same sentences of section 4.5: a rule at a level other
  than off is passed over when the event's level is below its level, and the next
  rules are tried. It is kept to show that the two handlers of the test do not depend
  on the choice.
\<close>

fun handler_emits_passing_over :: "log_rule list \<Rightarrow> log_event \<Rightarrow> bool" where
  "handler_emits_passing_over [] ev = False"
| "handler_emits_passing_over (r # rs) ev =
     (if category_matches r ev \<and> (rule_level r = LEVEL_OFF \<or> level_passes r ev)
      then rule_level r \<noteq> LEVEL_OFF
      else handler_emits_passing_over rs ev)"


text \<open>The two handlers of \<^verbatim>\<open>log_advanced_category_filter.cc\<close>.\<close>

definition handler_A :: "log_rule list" where
  "handler_A = [\<lparr> rule_category = Some ''ten:runtime'', rule_level = LEVEL_FROM LOG_INFO \<rparr>]"

definition handler_B :: "log_rule list" where
  "handler_B = [\<lparr> rule_category = Some ''ten:runtime'', rule_level = LEVEL_OFF \<rparr>,
                \<lparr> rule_category = None, rule_level = LEVEL_FROM LOG_DEBUG \<rparr>]"



section \<open>Properties in the words of the specification\<close>

text \<open>
  A record answers a query when its location string-equals every query field that is
  not \<^verbatim>\<open>NULL\<close>.
\<close>

definition query_matches ::
  "string option \<Rightarrow> string option \<Rightarrow> string option \<Rightarrow> ten_extension_info \<Rightarrow> bool" where
  "query_matches a g n info =
     ((case a of None \<Rightarrow> True | Some s \<Rightarrow> app_uri (ei_loc info) = s) \<and>
      (case g of None \<Rightarrow> True | Some s \<Rightarrow> graph_id (ei_loc info) = s) \<and>
      (case n of None \<Rightarrow> True | Some s \<Rightarrow> extension_name (ei_loc info) = s))"

section \<open>Sample data\<close>

text \<open>Concrete values on which the theorems below are instantiated.\<close>

definition sample_app :: ten_app where
  "sample_app = \<lparr> uri = ''msgpack://127.0.0.1:8001/'', base_dir = ''/srv/app'',
                  extension_group_addons = [''default_extension_group'', ''my_group''] \<rparr>"

definition sample_extension_info :: "string \<Rightarrow> string \<Rightarrow> string \<Rightarrow> ten_extension_info" where
  "sample_extension_info a n grp =
     \<lparr> ei_loc = \<lparr> app_uri = a, graph_id = ''g1'', extension_name = n \<rparr>,
       extension_addon_name = n @ ''_addon'',
       extension_group_name = grp \<rparr>"

definition sample_group_info :: "string \<Rightarrow> string \<Rightarrow> string \<Rightarrow> ten_extension_group_info" where
  "sample_group_info a addon inst =
     \<lparr> gi_loc = \<lparr> app_uri = a, graph_id = ''g1'', extension_name = [] \<rparr>,
       extension_group_addon_name = addon,
       extension_group_instance_name = inst \<rparr>"

definition sample_context :: ten_extension_context where
  "sample_context =
     \<lparr> signature = TEN_EXTENSION_CONTEXT_SIGNATURE,
       on_closed = True,
       extension_groups_info_from_graph = [],
       extensions_info_from_graph =
         [sample_extension_info ''msgpack://127.0.0.1:8001/'' ''ext1'' ''group1'',
          sample_extension_info ''msgpack://127.0.0.1:8002/'' ''ext2'' ''group2'',
          sample_extension_info ''msgpack://127.0.0.1:8001/'' ''ext2'' ''group3''],
       extension_threads = [],
       extension_threads_cnt_of_ready = 0,
       extension_threads_cnt_of_closed = 0,
       extension_threads_total_cnt = 0 \<rparr>"

definition sample_engine :: "ten_msg \<Rightarrow> ten_engine" where
  "sample_engine cmd =
     \<lparr> app = sample_app, engine_id = ''g1'', graph_name = [],
       original_start_graph_cmd_of_enabling_engine = Some cmd,
       extension_context = sample_context\<lparr>extensions_info_from_graph := []\<rparr>,
       created_extension_groups = [],
       effects = [] \<rparr>"

definition sample_dest :: ten_loc where
  "sample_dest = \<lparr> app_uri = ''msgpack://127.0.0.1:8001/'', graph_id = ''g1'',
                   extension_name = [] \<rparr>"

definition empty_graph_cmd :: ten_msg where
  "empty_graph_cmd =
     \<lparr> msg_type = TEN_MSG_TYPE_CMD_START_GRAPH, dest_locs = [sample_dest],
       extensions_info = [], extension_groups_info = [] \<rparr>"

definition remote_only_cmd :: ten_msg where
  "remote_only_cmd =
     \<lparr> msg_type = TEN_MSG_TYPE_CMD_START_GRAPH, dest_locs = [sample_dest],
       extensions_info =
         [sample_extension_info ''msgpack://127.0.0.1:8002/'' ''ext2'' ''group2''],
       extension_groups_info =
         [sample_group_info ''msgpack://127.0.0.1:8002/'' ''my_group'' ''group2''] \<rparr>"

definition two_local_groups_cmd :: ten_msg where
  "two_local_groups_cmd =
     \<lparr> msg_type = TEN_MSG_TYPE_CMD_START_GRAPH, dest_locs = [sample_dest],
       extensions_info =
         [sample_extension_info ''msgpack://127.0.0.1:8001/'' ''ext1'' ''group1'',
          sample_extension_info ''msgpack://127.0.0.1:8002/'' ''ext2'' ''group2'',
          sample_extension_info ''msgpack://127.0.0.1:8001/'' ''ext3'' ''group3''],
       extension_groups_info =
         [sample_group_info ''msgpack://127.0.0.1:8001/'' ''default_extension_group'' ''group1'',
          sample_group_info ''msgpack://127.0.0.1:8002/'' ''my_group'' ''group2'',
          sample_group_info ''msgpack://127.0.0.1:8001/'' ''my_group'' ''group3''] \<rparr>"

definition missing_addon_cmd :: ten_msg where
  "missing_addon_cmd =
     \<lparr> msg_type = TEN_MSG_TYPE_CMD_START_GRAPH, dest_locs = [sample_dest],
       extensions_info = [],
       extension_groups_info =
         [sample_group_info ''msgpack://127.0.0.1:8001/'' ''my_group'' ''group1'',
          sample_group_info ''msgpack://127.0.0.1:8001/'' ''does_not_exist'' ''group2'',
          sample_group_info ''msgpack://127.0.0.1:8001/'' ''my_group'' ''group3''] \<rparr>"

definition fresh_engine :: ten_engine where
  "fresh_engine =
     (sample_engine empty_graph_cmd)
       \<lparr>extension_context := snd (ten_extension_context_create (sample_engine empty_graph_cmd) 7)\<rparr>"

definition sample_thread :: "string \<Rightarrow> ten_extension_thread" where
  "sample_thread group_name =
     \<lparr> thread_extension_group = group_name, thread_extension_context = ''g1'' \<rparr>"

definition running_engine :: ten_engine where
  "running_engine =
     (sample_engine empty_graph_cmd)
       \<lparr>extension_context := sample_context
          \<lparr>extension_threads := [sample_thread ''group1'', sample_thread ''group3'']\<rparr>\<rparr>"


definition no_group_cmd :: ten_msg where
  "no_group_cmd =
     \<lparr> msg_type = TEN_MSG_TYPE_CMD_START_GRAPH, dest_locs = [sample_dest],
       extensions_info =
         [sample_extension_info ''msgpack://127.0.0.1:8001/'' ''ext1'' ''group1''],
       extension_groups_info = [] \<rparr>"

definition threaded_engine :: ten_engine where
  "threaded_engine =
     (sample_engine no_group_cmd)
       \<lparr>extension_context := sample_context
          \<lparr> extensions_info_from_graph := [],
            extension_threads := [sample_thread ''group1''] \<rparr>\<rparr>"

definition two_remote_groups_cmd :: ten_msg where
  "two_remote_groups_cmd =
     \<lparr> msg_type = TEN_MSG_TYPE_CMD_START_GRAPH, dest_locs = [sample_dest],
       extensions_info =
         [sample_extension_info ''msgpack://127.0.0.1:8002/'' ''ext2'' ''group2'',
          sample_extension_info ''msgpack://127.0.0.1:8003/'' ''ext3'' ''group3''],
       extension_groups_info =
         [sample_group_info ''msgpack://127.0.0.1:8002/'' ''my_group'' ''group2'',
          sample_group_info ''msgpack://127.0.0.1:8003/'' ''my_group'' ''group3''] \<rparr>"

definition two_missing_addons_cmd :: ten_msg where
  "two_missing_addons_cmd =
     \<lparr> msg_type = TEN_MSG_TYPE_CMD_START_GRAPH, dest_locs = [sample_dest],
       extensions_info = [],
       extension_groups_info =
         [sample_group_info ''msgpack://127.0.0.1:8001/'' ''missing_a'' ''group1'',
          sample_group_info ''msgpack://127.0.0.1:8001/'' ''missing_b'' ''group2''] \<rparr>"


section \<open>Lookup of extension infos\<close>

lemma get_extension_info_by_name_foreach_find:
  "get_extension_info_by_name_foreach a g n xs = List.find (query_matches a g n) xs"
  by (induction xs) (auto simp: query_matches_def split: option.splits)

text \<open>
  C10. On a live context, for a query whose app uri and extension name are given (the
  function asserts both) and whose graph id may be \<^verbatim>\<open>NULL\<close>,
  \<^verbatim>\<open>ten_extension_context_get_extension_info_by_name\<close> returns the first record of
  \<^verbatim>\<open>extensions_info_from_graph\<close> whose location string-equals every query field
  that is not \<^verbatim>\<open>NULL\<close>: every record before it fails the query. It returns
  \<^verbatim>\<open>NULL\<close> exactly when no record answers, and then
  \<^verbatim>\<open>ten_extension_context_get_extension_group_name\<close> returns \<^verbatim>\<open>NULL\<close> too,
  without aborting.
\<close>

theorem get_extension_info_by_name_first_match:
  assumes "ten_extension_context_check_integrity self"
  shows "ten_extension_context_get_extension_info_by_name self (Some a) g (Some n) =
           Some (List.find (query_matches (Some a) g (Some n))
                   (extensions_info_from_graph self)) \<and>
         (\<forall>info.
            ten_extension_context_get_extension_info_by_name self (Some a) g (Some n) =
              Some (Some info) \<longleftrightarrow>
            (\<exists>pre post. extensions_info_from_graph self = pre @ info # post \<and>
               query_matches (Some a) g (Some n) info \<and>
               (\<forall>x \<in> set pre. \<not> query_matches (Some a) g (Some n) x))) \<and>
         (ten_extension_context_get_extension_info_by_name self (Some a) g (Some n) =
            Some None \<longleftrightarrow>
          (\<forall>x \<in> set (extensions_info_from_graph self).
             \<not> query_matches (Some a) g (Some n) x)) \<and>
         ((\<forall>x \<in> set (extensions_info_from_graph self).
             \<not> query_matches (Some a) g (Some n) x) \<longrightarrow>
          ten_extension_context_get_extension_group_name self (Some a) g (Some n) =
            Some None)"
proof -
  let ?P = "query_matches (Some a) g (Some n)"
  let ?xs = "extensions_info_from_graph self"
  have r: "ten_extension_context_get_extension_info_by_name self (Some a) g (Some n) =
           Some (List.find ?P ?xs)"
    using assms
    by (simp add: ten_extension_context_get_extension_info_by_name_def
        get_extension_info_by_name_foreach_find)
  have s: "\<And>info. List.find ?P ?xs = Some info \<longleftrightarrow>
            (\<exists>pre post. ?xs = pre @ info # post \<and> ?P info \<and> (\<forall>x \<in> set pre. \<not> ?P x))"
  proof
    fix info assume "List.find ?P ?xs = Some info"
    then obtain i where i: "i < length ?xs" "?P (?xs ! i)" "info = ?xs ! i"
      "\<forall>j<i. \<not> ?P (?xs ! j)"
      unfolding find_Some_iff by blast
    have "?xs = take i ?xs @ info # drop (Suc i) ?xs"
      using i(1,3) by (simp add: id_take_nth_drop)
    moreover have "\<forall>x \<in> set (take i ?xs). \<not> ?P x"
      using i(1,4) by (auto simp: in_set_conv_nth)
    ultimately show
      "\<exists>pre post. ?xs = pre @ info # post \<and> ?P info \<and> (\<forall>x \<in> set pre. \<not> ?P x)"
      using i(2,3) by blast
  next
    fix info
    assume "\<exists>pre post. ?xs = pre @ info # post \<and> ?P info \<and> (\<forall>x \<in> set pre. \<not> ?P x)"
    then obtain pre post where p: "?xs = pre @ info # post" "?P info"
      "\<forall>x \<in> set pre. \<not> ?P x" by blast
    have "List.find ?P (pre @ info # post) = Some info"
      using p(2,3) by (induction pre) auto
    then show "List.find ?P ?xs = Some info" using p(1) by simp
  qed
  have t: "List.find ?P ?xs = None \<longleftrightarrow> (\<forall>x \<in> set ?xs. \<not> ?P x)"
    by (auto simp: find_None_iff)
  have u: "(\<forall>x \<in> set ?xs. \<not> ?P x) \<longrightarrow>
            ten_extension_context_get_extension_group_name self (Some a) g (Some n) = Some None"
  proof
    assume "\<forall>x \<in> set ?xs. \<not> ?P x"
    then have "List.find ?P ?xs = None" using t by blast
    then show
      "ten_extension_context_get_extension_group_name self (Some a) g (Some n) = Some None"
      using assms r by (simp add: ten_extension_context_get_extension_group_name_def)
  qed
  show ?thesis using r s t u by simp
qed

theorem get_extension_info_by_name_first_match_witness:
  "ten_extension_context_check_integrity sample_context \<and>
   ten_extension_context_get_extension_info_by_name sample_context
     (Some ''msgpack://127.0.0.1:8001/'') None (Some ''ext2'') =
     Some (Some (sample_extension_info ''msgpack://127.0.0.1:8001/'' ''ext2'' ''group3'')) \<and>
   ten_extension_context_get_extension_group_name sample_context
     (Some ''msgpack://127.0.0.1:8001/'') (Some ''g2'') (Some ''ext2'') = Some None"
proof -
  have h: "ten_extension_context_check_integrity sample_context"
    by (simp add: ten_extension_context_check_integrity_def sample_context_def)
  have a: "ten_extension_context_get_extension_info_by_name sample_context
     (Some ''msgpack://127.0.0.1:8001/'') None (Some ''ext2'') =
     Some (Some (sample_extension_info ''msgpack://127.0.0.1:8001/'' ''ext2'' ''group3''))"
    using get_extension_info_by_name_first_match
      [OF h, of "''msgpack://127.0.0.1:8001/''" None "''ext2''"]
    by (simp add: sample_context_def sample_extension_info_def query_matches_def)
  have b: "ten_extension_context_get_extension_group_name sample_context
     (Some ''msgpack://127.0.0.1:8001/'') (Some ''g2'') (Some ''ext2'') = Some None"
    using get_extension_info_by_name_first_match
      [OF h, of "''msgpack://127.0.0.1:8001/''" "Some ''g2''" "''ext2''"]
    by (simp add: sample_context_def sample_extension_info_def query_matches_def)
  show ?thesis using h a b by simp
qed

section \<open>Starting the extension groups of a graph\<close>

lemma emit_simps:
  "app (emit es e) = app e" "engine_id (emit es e) = engine_id e"
  "graph_name (emit es e) = graph_name e"
  "original_start_graph_cmd_of_enabling_engine (emit es e) =
     original_start_graph_cmd_of_enabling_engine e"
  "extension_context (emit es e) = extension_context e"
  "created_extension_groups (emit es e) = created_extension_groups e"
  "effects (emit es e) = effects e @ es"
  by (simp_all add: emit_def)

lemma install_graph_info_fresh:
  assumes "ten_extension_context_check_integrity (extension_context e)"
    and "extensions_info_from_graph (extension_context e) = []"
    and "extension_groups_info_from_graph (extension_context e) = []"
  shows "install_graph_info cmd e =
     Some (e\<lparr> extension_context := (extension_context e)
                 \<lparr> extensions_info_from_graph := extensions_info cmd,
                   extension_groups_info_from_graph := extension_groups_info cmd \<rparr>,
               original_start_graph_cmd_of_enabling_engine :=
                 Some (cmd\<lparr> extensions_info := [], extension_groups_info := [] \<rparr>) \<rparr>)"
  using assms
  by (simp add: install_graph_info_def ten_extension_context_add_extensions_info_from_graph_def
      ten_extension_context_add_extension_groups_info_from_graph_def
      ten_extension_context_check_integrity_def)

lemma sample_engine_live:
  "ten_extension_context_check_integrity (extension_context (sample_engine cmd))"
  by (simp add: sample_engine_def sample_context_def ten_extension_context_check_integrity_def)

lemma sample_engine_simps:
  "original_start_graph_cmd_of_enabling_engine (sample_engine cmd) = Some cmd"
  "extensions_info_from_graph (extension_context (sample_engine cmd)) = []"
  "extension_groups_info_from_graph (extension_context (sample_engine cmd)) = []"
  "extension_threads (extension_context (sample_engine cmd)) = []"
  "created_extension_groups (sample_engine cmd) = []"
  "effects (sample_engine cmd) = []"
  "app (sample_engine cmd) = sample_app"
  "engine_id (sample_engine cmd) = ''g1''"
  by (simp_all add: sample_engine_def sample_context_def)

lemma foreach_no_local:
  "\<forall>p \<in> set infos. app_uri (gi_loc p) \<noteq> uri (app e) \<Longrightarrow>
   start_extension_group_foreach infos err e = (True, err, e)"
  by (induction infos) simp_all

text \<open>
  C1, as amended. On a live context:
  when the extension-group info list of the StartGraph command is empty as a whole
  and the two graph lists of the context are still empty,
  \<^verbatim>\<open>ten_extension_context_start_extension_group\<close> installs the command's extension
  info list and its (empty) group info list into the context, leaving the command with
  two empty lists, starts the context, that is every registered extension thread, and
  returns true with the error untouched;
  when the list is not empty but holds no group of this app, the function returns true
  and leaves the engine as it was: nothing is installed and nothing is started.
\<close>

theorem start_extension_group_empty_graph:
  assumes live: "ten_extension_context_check_integrity (extension_context engine)"
    and cmd: "original_start_graph_cmd_of_enabling_engine engine = Some cmd"
  shows "(extension_groups_info cmd = [] \<and>
          extensions_info_from_graph (extension_context engine) = [] \<and>
          extension_groups_info_from_graph (extension_context engine) = [] \<longrightarrow>
            (\<exists>engine'. ten_extension_context_start_extension_group engine err =
               Some (True, err, engine') \<and>
             extensions_info_from_graph (extension_context engine') = extensions_info cmd \<and>
             extension_groups_info_from_graph (extension_context engine') = [] \<and>
             extension_threads (extension_context engine') =
               extension_threads (extension_context engine) \<and>
             effects engine' = effects engine @
               map ten_extension_thread_start (extension_threads (extension_context engine)) \<and>
             original_start_graph_cmd_of_enabling_engine engine' =
               Some (cmd\<lparr> extensions_info := [], extension_groups_info := [] \<rparr>))) \<and>
         (extension_groups_info cmd \<noteq> [] \<and> local_groups_info engine cmd = [] \<longrightarrow>
            ten_extension_context_start_extension_group engine err = Some (True, err, engine))"
proof (intro conjI impI)
  assume a: "extension_groups_info cmd = [] \<and>
          extensions_info_from_graph (extension_context engine) = [] \<and>
          extension_groups_info_from_graph (extension_context engine) = []"
  then have fresh: "extensions_info_from_graph (extension_context engine) = []"
      "extension_groups_info_from_graph (extension_context engine) = []"
    by simp_all
  show "\<exists>engine'. ten_extension_context_start_extension_group engine err =
               Some (True, err, engine') \<and>
             extensions_info_from_graph (extension_context engine') = extensions_info cmd \<and>
             extension_groups_info_from_graph (extension_context engine') = [] \<and>
             extension_threads (extension_context engine') =
               extension_threads (extension_context engine) \<and>
             effects engine' = effects engine @
               map ten_extension_thread_start (extension_threads (extension_context engine)) \<and>
             original_start_graph_cmd_of_enabling_engine engine' =
               Some (cmd\<lparr> extensions_info := [], extension_groups_info := [] \<rparr>)"
    using live cmd a
    by (simp add: ten_extension_context_start_extension_group_def
        install_graph_info_fresh [OF live fresh] ten_extension_context_start_def
        ten_extension_context_check_integrity_def emit_simps)
next
  assume b: "extension_groups_info cmd \<noteq> [] \<and> local_groups_info engine cmd = []"
  then have "\<forall>p \<in> set (extension_groups_info cmd). app_uri (gi_loc p) \<noteq> uri (app engine)"
    by (simp add: local_groups_info_def filter_empty_conv)
  then have "start_extension_group_foreach (extension_groups_info cmd) err engine =
             (True, err, engine)"
    by (rule foreach_no_local)
  then show "ten_extension_context_start_extension_group engine err = Some (True, err, engine)"
    using live cmd b by (simp add: ten_extension_context_start_extension_group_def)
qed

theorem start_extension_group_empty_graph_witness:
  "(\<exists>engine'. ten_extension_context_start_extension_group threaded_engine None =
      Some (True, None, engine') \<and>
      extensions_info_from_graph (extension_context engine') =
        [sample_extension_info ''msgpack://127.0.0.1:8001/'' ''ext1'' ''group1''] \<and>
      extension_groups_info_from_graph (extension_context engine') = [] \<and>
      effects engine' = [ten_extension_thread_start (sample_thread ''group1'')] \<and>
      original_start_graph_cmd_of_enabling_engine engine' =
        Some (no_group_cmd\<lparr> extensions_info := [], extension_groups_info := [] \<rparr>)) \<and>
   ten_extension_context_start_extension_group (sample_engine two_remote_groups_cmd) None =
     Some (True, None, sample_engine two_remote_groups_cmd)"
proof -
  have live: "ten_extension_context_check_integrity (extension_context threaded_engine)"
    by (simp add: threaded_engine_def sample_context_def
        ten_extension_context_check_integrity_def)
  have cmd: "original_start_graph_cmd_of_enabling_engine threaded_engine = Some no_group_cmd"
    by (simp add: threaded_engine_def sample_engine_def)
  have pre: "extension_groups_info no_group_cmd = [] \<and>
          extensions_info_from_graph (extension_context threaded_engine) = [] \<and>
          extension_groups_info_from_graph (extension_context threaded_engine) = []"
    by (simp add: no_group_cmd_def threaded_engine_def sample_context_def)
  from start_extension_group_empty_graph [OF live cmd, of None, THEN conjunct1, rule_format, OF pre]
  obtain engine' where e:
    "ten_extension_context_start_extension_group threaded_engine None = Some (True, None, engine')"
    "extensions_info_from_graph (extension_context engine') = extensions_info no_group_cmd"
    "extension_groups_info_from_graph (extension_context engine') = []"
    "effects engine' = effects threaded_engine @
       map ten_extension_thread_start (extension_threads (extension_context threaded_engine))"
    "original_start_graph_cmd_of_enabling_engine engine' =
       Some (no_group_cmd\<lparr> extensions_info := [], extension_groups_info := [] \<rparr>)"
    by blast
  have x: "extensions_info no_group_cmd =
      [sample_extension_info ''msgpack://127.0.0.1:8001/'' ''ext1'' ''group1'']"
    by (simp add: no_group_cmd_def)
  have y: "effects threaded_engine @
       map ten_extension_thread_start (extension_threads (extension_context threaded_engine)) =
       [ten_extension_thread_start (sample_thread ''group1'')]"
    by (simp add: threaded_engine_def sample_engine_def)
  have first: "\<exists>engine'. ten_extension_context_start_extension_group threaded_engine None =
      Some (True, None, engine') \<and>
      extensions_info_from_graph (extension_context engine') =
        [sample_extension_info ''msgpack://127.0.0.1:8001/'' ''ext1'' ''group1''] \<and>
      extension_groups_info_from_graph (extension_context engine') = [] \<and>
      effects engine' = [ten_extension_thread_start (sample_thread ''group1'')] \<and>
      original_start_graph_cmd_of_enabling_engine engine' =
        Some (no_group_cmd\<lparr> extensions_info := [], extension_groups_info := [] \<rparr>)"
    using e x y by auto
  have remote: "extension_groups_info two_remote_groups_cmd \<noteq> [] \<and>
      local_groups_info (sample_engine two_remote_groups_cmd) two_remote_groups_cmd = []"
    by (simp add: two_remote_groups_cmd_def local_groups_info_def sample_engine_simps
        sample_app_def sample_group_info_def)
  from start_extension_group_empty_graph
    [OF sample_engine_live sample_engine_simps(1), of two_remote_groups_cmd None,
     THEN conjunct2, rule_format, OF remote]
  have second: "ten_extension_context_start_extension_group
      (sample_engine two_remote_groups_cmd) None =
      Some (True, None, sample_engine two_remote_groups_cmd)" .
  show ?thesis using first second by blast
qed

text \<open>
  C1 as the claim states it fails: the command below has one extension group, on
  another app, so its group infos restricted to this app are empty; the function
  returns true and leaves the engine as it was, with nothing installed in the context.
\<close>

theorem start_extension_group_remote_only_counterexample:
  "local_groups_info (sample_engine remote_only_cmd) remote_only_cmd = [] \<and>
   ten_extension_context_start_extension_group (sample_engine remote_only_cmd) None =
     Some (True, None, sample_engine remote_only_cmd) \<and>
   extensions_info_from_graph (extension_context (sample_engine remote_only_cmd)) = [] \<and>
   extensions_info remote_only_cmd \<noteq> [] \<and>
   extension_groups_info_from_graph (extension_context (sample_engine remote_only_cmd)) = [] \<and>
   extension_groups_info remote_only_cmd \<noteq> []"
  by (simp add: local_groups_info_def sample_engine_def remote_only_cmd_def sample_app_def
      sample_group_info_def sample_context_def ten_extension_context_start_extension_group_def
      ten_extension_context_check_integrity_def)

lemma create_group_info:
  "extension_group_addon_name info \<in> set (extension_group_addons (app e)) \<Longrightarrow>
   ten_addon_create_extension_group e
     (extension_group_addon_name info) (extension_group_instance_name info) =
     (True, e\<lparr>created_extension_groups := created_extension_groups e @ [created_group info]\<rparr>)"
  by (simp add: ten_addon_create_extension_group_def created_group_def)

lemma create_group_missing:
  "addon \<notin> set (extension_group_addons (app e)) \<Longrightarrow>
   ten_addon_create_extension_group e addon inst = (False, e)"
  by (simp add: ten_addon_create_extension_group_def)

lemma foreach_resolved:
  "\<forall>p \<in> set pre. app_uri (gi_loc p) = uri (app e) \<longrightarrow>
      extension_group_addon_name p \<in> set (extension_group_addons (app e)) \<Longrightarrow>
   start_extension_group_foreach (pre @ rest) err e =
   start_extension_group_foreach rest err
     (e\<lparr>created_extension_groups := created_extension_groups e @
          map created_group (filter (\<lambda>info. app_uri (gi_loc info) = uri (app e)) pre)\<rparr>)"
proof (induction pre arbitrary: e)
  case Nil
  then show ?case by simp
next
  case (Cons p pre)
  show ?case
  proof (cases "app_uri (gi_loc p) = uri (app e)")
    case True
    then have reg: "extension_group_addon_name p \<in> set (extension_group_addons (app e))"
      using Cons.prems by simp
    let ?e1 = "e\<lparr>created_extension_groups := created_extension_groups e @ [created_group p]\<rparr>"
    have "start_extension_group_foreach ((p # pre) @ rest) err e =
          start_extension_group_foreach (pre @ rest) err ?e1"
      using True by (simp add: create_group_info [OF reg])
    also have "\<dots> = start_extension_group_foreach rest err
       (?e1\<lparr>created_extension_groups := created_extension_groups ?e1 @
          map created_group (filter (\<lambda>info. app_uri (gi_loc info) = uri (app ?e1)) pre)\<rparr>)"
      using Cons.prems by (intro Cons.IH) simp
    finally show ?thesis using True by simp
  next
    case False
    then show ?thesis using Cons by simp
  qed
qed

text \<open>
  C4, as amended. For the first group info of this app whose group addon is not
  registered (every local group info before it resolved),
  \<^verbatim>\<open>ten_extension_context_start_extension_group\<close> stops there and returns false;
  the error behind the given error pointer gets the code
  \<^verbatim>\<open>TEN_ERROR_CODE_GENERIC\<close> and the message \<^verbatim>\<open>Unable to find\<close> followed by the
  name of that addon; one error line is logged; the groups requested are those of the
  local infos before the failing one and none of the infos after it; the context is
  untouched.
\<close>

theorem start_extension_group_missing_addon:
  assumes live: "ten_extension_context_check_integrity (extension_context engine)"
    and cmd: "original_start_graph_cmd_of_enabling_engine engine = Some cmd"
    and split: "extension_groups_info cmd = pre @ info # post"
    and before: "\<forall>p \<in> set pre. app_uri (gi_loc p) = uri (app engine) \<longrightarrow>
                   extension_group_addon_name p \<in> set (extension_group_addons (app engine))"
    and loc: "app_uri (gi_loc info) = uri (app engine)"
    and missing: "extension_group_addon_name info \<notin> set (extension_group_addons (app engine))"
  shows "ten_extension_context_start_extension_group engine (Some err) =
           Some (False,
                 Some (err\<lparr> error_code := TEN_ERROR_CODE_GENERIC,
                            error_message :=
                              ''Unable to find '' @ extension_group_addon_name info \<rparr>),
                 engine\<lparr> created_extension_groups := created_extension_groups engine @
                           map created_group
                             (filter (\<lambda>p. app_uri (gi_loc p) = uri (app engine)) pre),
                         effects := effects engine @
                           [TEN_LOGE (''['' @ engine_id engine @
                              ''] Failed to start the extension group, because unable to find '' @
                              ''the specified extension group addon: '' @
                              extension_group_addon_name info)] \<rparr>)"
proof -
  let ?e1 = "engine\<lparr>created_extension_groups := created_extension_groups engine @
               map created_group (filter (\<lambda>p. app_uri (gi_loc p) = uri (app engine)) pre)\<rparr>"
  have "start_extension_group_foreach (pre @ info # post) (Some err) engine =
        start_extension_group_foreach (info # post) (Some err) ?e1"
    using before by (rule foreach_resolved)
  moreover have "extension_group_addon_name info \<notin> set (extension_group_addons (app ?e1))"
    using missing by simp
  then have "start_extension_group_foreach (info # post) (Some err) ?e1 =
     (False, Some (ten_error_set err TEN_ERROR_CODE_GENERIC
                     (''Unable to find '' @ extension_group_addon_name info)),
      emit [TEN_LOGE (''['' @ engine_id engine @
                    ''] Failed to start the extension group, because unable to find '' @
                    ''the specified extension group addon: '' @
                    extension_group_addon_name info)] ?e1)"
    using loc by (simp add: create_group_missing)
  ultimately show ?thesis
    using live cmd split
    by (simp add: ten_extension_context_start_extension_group_def ten_error_set_def emit_def)
qed

theorem start_extension_group_missing_addon_witness:
  "ten_extension_context_start_extension_group (sample_engine missing_addon_cmd)
     (Some \<lparr> error_code = TEN_ERROR_CODE_OK, error_message = [] \<rparr>) =
     Some (False,
           Some \<lparr> error_code = TEN_ERROR_CODE_GENERIC,
                  error_message = ''Unable to find does_not_exist'' \<rparr>,
           (sample_engine missing_addon_cmd)
             \<lparr> created_extension_groups :=
                 [created_group
                    (sample_group_info ''msgpack://127.0.0.1:8001/'' ''my_group'' ''group1'')],
               effects :=
                 [TEN_LOGE (''[g1] Failed to start the extension group, because unable to '' @
                    ''find the specified extension group addon: does_not_exist'')] \<rparr>)"
proof -
  let ?pre = "[sample_group_info ''msgpack://127.0.0.1:8001/'' ''my_group'' ''group1'']"
  let ?info = "sample_group_info ''msgpack://127.0.0.1:8001/'' ''does_not_exist'' ''group2''"
  let ?post = "[sample_group_info ''msgpack://127.0.0.1:8001/'' ''my_group'' ''group3'']"
  have split: "extension_groups_info missing_addon_cmd = ?pre @ ?info # ?post"
    by (simp add: missing_addon_cmd_def)
  have before: "\<forall>p \<in> set ?pre.
      app_uri (gi_loc p) = uri (app (sample_engine missing_addon_cmd)) \<longrightarrow>
      extension_group_addon_name p \<in>
        set (extension_group_addons (app (sample_engine missing_addon_cmd)))"
    by (simp add: sample_engine_simps sample_app_def sample_group_info_def)
  have loc: "app_uri (gi_loc ?info) = uri (app (sample_engine missing_addon_cmd))"
    by (simp add: sample_engine_simps sample_app_def sample_group_info_def)
  have missing: "extension_group_addon_name ?info \<notin>
      set (extension_group_addons (app (sample_engine missing_addon_cmd)))"
    by (simp add: sample_engine_simps sample_app_def sample_group_info_def)
  show ?thesis
    using start_extension_group_missing_addon
      [OF sample_engine_live sample_engine_simps(1) split before loc missing,
       of "\<lparr> error_code = TEN_ERROR_CODE_OK, error_message = [] \<rparr>"]
    by (simp add: sample_engine_simps sample_app_def sample_group_info_def)
qed

text \<open>
  C4 as the claim states it fails for an unresolvable group info that is not the first:
  in the command below the group infos of \<^verbatim>\<open>missing_a\<close> and \<^verbatim>\<open>missing_b\<close> are
  both on this app and neither addon is registered; the loop stops at the first, so
  the message names \<^verbatim>\<open>missing_a\<close> and the info of \<^verbatim>\<open>missing_b\<close> is never
  reached.
\<close>

theorem start_extension_group_second_missing_addon_counterexample:
  "extension_groups_info two_missing_addons_cmd =
     [sample_group_info ''msgpack://127.0.0.1:8001/'' ''missing_a'' ''group1'',
      sample_group_info ''msgpack://127.0.0.1:8001/'' ''missing_b'' ''group2''] \<and>
   app_uri (gi_loc (sample_group_info ''msgpack://127.0.0.1:8001/'' ''missing_b'' ''group2'')) =
     uri (app (sample_engine two_missing_addons_cmd)) \<and>
   extension_group_addon_name
     (sample_group_info ''msgpack://127.0.0.1:8001/'' ''missing_b'' ''group2'') \<notin>
     set (extension_group_addons (app (sample_engine two_missing_addons_cmd))) \<and>
   ten_extension_context_start_extension_group (sample_engine two_missing_addons_cmd)
     (Some \<lparr> error_code = TEN_ERROR_CODE_OK, error_message = [] \<rparr>) =
     Some (False,
           Some \<lparr> error_code = TEN_ERROR_CODE_GENERIC,
                  error_message = ''Unable to find missing_a'' \<rparr>,
           (sample_engine two_missing_addons_cmd)
             \<lparr> effects :=
                 [TEN_LOGE (''[g1] Failed to start the extension group, because unable to '' @
                    ''find the specified extension group addon: missing_a'')] \<rparr>) \<and>
   ''Unable to find missing_a'' \<noteq> ''Unable to find missing_b''"
  by (simp add: two_missing_addons_cmd_def sample_engine_def sample_app_def
      sample_group_info_def sample_context_def ten_extension_context_start_extension_group_def
      ten_extension_context_check_integrity_def ten_addon_create_extension_group_def
      ten_error_set_def emit_def)

section \<open>The completion callback of a created group\<close>

lemma fill_default_ok:
  assumes "msg_type cmd = TEN_MSG_TYPE_CMD_START_GRAPH" "length (dest_locs cmd) = 1"
  shows "\<exists>g'. fill_default_extension_group cmd g = Some g' \<and> name g' = name g"
proof -
  obtain d where "dest_locs cmd = [d]"
    using assms(2) by (cases "dest_locs cmd") auto
  then show ?thesis
    using assms(1) by (simp add: fill_default_extension_group_def)
qed

lemma register_simps:
  "app (register_extension_thread t e) = app e"
  "engine_id (register_extension_thread t e) = engine_id e"
  "graph_name (register_extension_thread t e) = graph_name e"
  "original_start_graph_cmd_of_enabling_engine (register_extension_thread t e) =
     original_start_graph_cmd_of_enabling_engine e"
  "created_extension_groups (register_extension_thread t e) = created_extension_groups e"
  "effects (register_extension_thread t e) = effects e"
  "extension_threads (extension_context (register_extension_thread t e)) =
     extension_threads (extension_context e) @ [t]"
  "extensions_info_from_graph (extension_context (register_extension_thread t e)) =
     extensions_info_from_graph (extension_context e)"
  "extension_groups_info_from_graph (extension_context (register_extension_thread t e)) =
     extension_groups_info_from_graph (extension_context e)"
  "ten_extension_context_check_integrity (extension_context (register_extension_thread t e)) =
     ten_extension_context_check_integrity (extension_context e)"
  by (simp_all add: register_extension_thread_def ten_extension_context_check_integrity_def)

lemma cnt_register:
  "extension_groups_cnt_of_the_current_app (register_extension_thread t e) cmd =
   extension_groups_cnt_of_the_current_app e cmd"
  by (simp add: extension_groups_cnt_of_the_current_app_def register_simps)

lemma done_not_last:
  assumes live: "ten_extension_context_check_integrity (extension_context e)"
    and cmd: "original_start_graph_cmd_of_enabling_engine e = Some cmd"
    and type: "msg_type cmd = TEN_MSG_TYPE_CMD_START_GRAPH" "length (dest_locs cmd) = 1"
    and more: "extension_groups_cnt_of_the_current_app e cmd \<noteq>
               Suc (length (extension_threads (extension_context e)))"
  shows "\<exists>g'. ten_extension_context_create_extension_group_done e g =
           Some (register_extension_thread (extension_thread_of e g) e, g')"
proof -
  obtain g1 where g1: "fill_default_extension_group cmd
      (g\<lparr> group_app := Some (uri (app e)),
          group_extension_context := Some (engine_id e) \<rparr>) = Some g1" "name g1 = name g"
    using fill_default_ok [OF type] by fastforce
  show ?thesis
    using live cmd more g1
    by (simp add: ten_extension_context_create_extension_group_done_def Let_def
        cnt_register register_simps extension_thread_of_def)
qed

lemma group_info_found:
  "info \<in> set xs \<Longrightarrow> app_uri (gi_loc info) = a \<Longrightarrow>
   extension_group_instance_name info = n \<Longrightarrow>
   \<exists>found. get_extension_group_info_by_name_foreach a n xs = Some found"
  by (induction xs) auto

lemma done_last:
  assumes live: "ten_extension_context_check_integrity (extension_context e)"
    and cmd: "original_start_graph_cmd_of_enabling_engine e = Some cmd"
    and type: "msg_type cmd = TEN_MSG_TYPE_CMD_START_GRAPH" "length (dest_locs cmd) = 1"
    and fresh: "extensions_info_from_graph (extension_context e) = []"
      "extension_groups_info_from_graph (extension_context e) = []"
    and last: "extension_groups_cnt_of_the_current_app e cmd =
               Suc (length (extension_threads (extension_context e)))"
    and info: "info \<in> set (extension_groups_info cmd)" "app_uri (gi_loc info) = uri (app e)"
      "extension_group_instance_name info = name g"
  shows "\<exists>e' g' line. ten_extension_context_create_extension_group_done e g = Some (e', g') \<and>
           extensions_info_from_graph (extension_context e') = extensions_info cmd \<and>
           extension_groups_info_from_graph (extension_context e') = extension_groups_info cmd \<and>
           extension_threads (extension_context e') =
             extension_threads (extension_context e) @ [extension_thread_of e g] \<and>
           effects e' = effects e @ [TEN_LOGM (''[graph resources] {'' @ line @ ''}'')] @
             map ten_extension_thread_start (extension_threads (extension_context e'))"
proof -
  obtain g1 where g1: "fill_default_extension_group cmd
      (g\<lparr> group_app := Some (uri (app e)),
          group_extension_context := Some (engine_id e) \<rparr>) = Some g1" "name g1 = name g"
    using fill_default_ok [OF type] by fastforce
  let ?t = "extension_thread_of e g"
  let ?e1 = "register_extension_thread ?t e"
  have live1: "ten_extension_context_check_integrity (extension_context ?e1)"
    using live by (simp add: register_simps)
  have inst: "install_graph_info cmd ?e1 =
     Some (?e1\<lparr> extension_context := (extension_context ?e1)
                 \<lparr> extensions_info_from_graph := extensions_info cmd,
                   extension_groups_info_from_graph := extension_groups_info cmd \<rparr>,
               original_start_graph_cmd_of_enabling_engine :=
                 Some (cmd\<lparr> extensions_info := [], extension_groups_info := [] \<rparr>) \<rparr>)"
    using fresh by (intro install_graph_info_fresh live1) (simp_all add: register_simps)
  obtain found where found: "get_extension_group_info_by_name_foreach (uri (app e)) (name g)
      (extension_groups_info cmd) = Some found"
    using group_info_found [OF info] by blast
  show ?thesis
    using live cmd last g1 inst found live1
    by (simp add: ten_extension_context_create_extension_group_done_def Let_def
        cnt_register register_simps extension_thread_of_def all_extension_groups_created_def
        ten_extension_context_get_extension_group_info_by_name_def
        ten_extension_context_log_graph_resources_def ten_extension_context_start_def
        ten_extension_context_check_integrity_def emit_simps)
qed

lemma done_each_append:
  "create_extension_group_done_each e (xs @ ys) =
     (case create_extension_group_done_each e xs of
        None \<Rightarrow> None
      | Some (e1, xs1) \<Rightarrow>
          (case create_extension_group_done_each e1 ys of
             None \<Rightarrow> None
           | Some (e2, ys1) \<Rightarrow> Some (e2, xs1 @ ys1)))"
  by (induction xs arbitrary: e) (auto split: option.splits)

lemma done_each_before_all:
  assumes "ten_extension_context_check_integrity (extension_context e)"
    and "original_start_graph_cmd_of_enabling_engine e = Some cmd"
    and "msg_type cmd = TEN_MSG_TYPE_CMD_START_GRAPH" "length (dest_locs cmd) = 1"
    and "length (extension_threads (extension_context e)) + length gs <
         extension_groups_cnt_of_the_current_app e cmd"
  shows "\<exists>e' gs'. create_extension_group_done_each e gs = Some (e', gs') \<and>
           ten_extension_context_check_integrity (extension_context e') \<and>
           original_start_graph_cmd_of_enabling_engine e' = Some cmd \<and>
           app e' = app e \<and> engine_id e' = engine_id e \<and>
           effects e' = effects e \<and>
           extensions_info_from_graph (extension_context e') =
             extensions_info_from_graph (extension_context e) \<and>
           extension_groups_info_from_graph (extension_context e') =
             extension_groups_info_from_graph (extension_context e) \<and>
           extension_threads (extension_context e') =
             extension_threads (extension_context e) @ map (extension_thread_of e) gs"
  using assms
proof (induction gs arbitrary: e)
  case Nil
  then show ?case by simp
next
  case (Cons g gs)
  let ?e1 = "register_extension_thread (extension_thread_of e g) e"
  have "extension_groups_cnt_of_the_current_app e cmd \<noteq>
        Suc (length (extension_threads (extension_context e)))"
    using Cons.prems(5) by simp
  then obtain g' where step: "ten_extension_context_create_extension_group_done e g =
      Some (?e1, g')"
    using done_not_last [OF Cons.prems(1-4)] by blast
  have "\<exists>e' gs'. create_extension_group_done_each ?e1 gs = Some (e', gs') \<and>
           ten_extension_context_check_integrity (extension_context e') \<and>
           original_start_graph_cmd_of_enabling_engine e' = Some cmd \<and>
           app e' = app ?e1 \<and> engine_id e' = engine_id ?e1 \<and>
           effects e' = effects ?e1 \<and>
           extensions_info_from_graph (extension_context e') =
             extensions_info_from_graph (extension_context ?e1) \<and>
           extension_groups_info_from_graph (extension_context e') =
             extension_groups_info_from_graph (extension_context ?e1) \<and>
           extension_threads (extension_context e') =
             extension_threads (extension_context ?e1) @ map (extension_thread_of ?e1) gs"
    using Cons.prems by (intro Cons.IH) (simp_all add: register_simps cnt_register)
  then obtain e' gs' where rest: "create_extension_group_done_each ?e1 gs = Some (e', gs')"
    "ten_extension_context_check_integrity (extension_context e')"
    "original_start_graph_cmd_of_enabling_engine e' = Some cmd"
    "app e' = app ?e1" "engine_id e' = engine_id ?e1" "effects e' = effects ?e1"
    "extensions_info_from_graph (extension_context e') =
       extensions_info_from_graph (extension_context ?e1)"
    "extension_groups_info_from_graph (extension_context e') =
       extension_groups_info_from_graph (extension_context ?e1)"
    "extension_threads (extension_context e') =
       extension_threads (extension_context ?e1) @ map (extension_thread_of ?e1) gs"
    by blast
  have same: "extension_thread_of ?e1 = extension_thread_of e"
    by (simp add: fun_eq_iff extension_thread_of_def register_simps)
  show ?case
    using step rest same by (simp add: register_simps)
qed

text \<open>
  C3. Take a StartGraph command with exactly one destination and at least one
  extension group on this app, all of whose group addons are registered, and an engine
  whose context is live and fresh (no graph lists, no threads). Then
  \<^verbatim>\<open>ten_extension_context_start_extension_group\<close> returns true having requested
  one group per local group info, and, whatever the order \<open>gs\<close> in which the
  completion callbacks of these groups run: after any proper prefix of the callbacks,
  as many threads are registered as callbacks have run, the graph lists of the context
  are still empty and no effect has been added (no thread is started); after the last
  callback, when the registered threads are as many as the local group infos, the
  context holds the extension info list and the group info list of the command, one
  \<^verbatim>\<open>[graph resources]\<close> line has been logged and after it every registered thread
  has been started, in the order of registration.
\<close>

theorem create_extension_group_done_all_created:
  assumes live: "ten_extension_context_check_integrity (extension_context engine)"
    and cmd: "original_start_graph_cmd_of_enabling_engine engine = Some cmd"
    and type: "msg_type cmd = TEN_MSG_TYPE_CMD_START_GRAPH" "length (dest_locs cmd) = 1"
    and fresh: "extensions_info_from_graph (extension_context engine) = []"
      "extension_groups_info_from_graph (extension_context engine) = []"
      "extension_threads (extension_context engine) = []"
      "created_extension_groups engine = []"
    and some_local: "local_groups_info engine cmd \<noteq> []"
    and resolved: "\<forall>info \<in> set (local_groups_info engine cmd).
                     extension_group_addon_name info \<in> set (extension_group_addons (app engine))"
    and order: "mset gs = mset (map created_group (local_groups_info engine cmd))"
  shows "\<exists>engine1.
           ten_extension_context_start_extension_group engine err = Some (True, err, engine1) \<and>
           created_extension_groups engine1 = map created_group (local_groups_info engine cmd) \<and>
           (\<forall>k < length gs. \<exists>e gs'.
              create_extension_group_done_each engine1 (take k gs) = Some (e, gs') \<and>
              effects e = effects engine \<and>
              extensions_info_from_graph (extension_context e) = [] \<and>
              extension_groups_info_from_graph (extension_context e) = [] \<and>
              length (extension_threads (extension_context e)) = k) \<and>
           (\<exists>e gs' line.
              create_extension_group_done_each engine1 gs = Some (e, gs') \<and>
              extensions_info_from_graph (extension_context e) = extensions_info cmd \<and>
              extension_groups_info_from_graph (extension_context e) =
                extension_groups_info cmd \<and>
              extension_threads (extension_context e) = map (extension_thread_of engine) gs \<and>
              length (extension_threads (extension_context e)) =
                length (local_groups_info engine cmd) \<and>
              effects e = effects engine @ [TEN_LOGM (''[graph resources] {'' @ line @ ''}'')] @
                map ten_extension_thread_start (extension_threads (extension_context e)))"
proof -
  let ?local = "local_groups_info engine cmd"
  let ?e1 = "engine\<lparr>created_extension_groups := map created_group ?local\<rparr>"
  have nonempty: "extension_groups_info cmd \<noteq> []"
    using some_local by (auto simp: local_groups_info_def)
  have "start_extension_group_foreach (extension_groups_info cmd @ []) err engine =
        start_extension_group_foreach [] err
          (engine\<lparr>created_extension_groups := created_extension_groups engine @
             map created_group (filter (\<lambda>info. app_uri (gi_loc info) = uri (app engine))
               (extension_groups_info cmd))\<rparr>)"
    using resolved by (intro foreach_resolved) (simp add: local_groups_info_def)
  then have loop: "start_extension_group_foreach (extension_groups_info cmd) err engine =
        (True, err, ?e1)"
    using fresh(4) by (simp add: local_groups_info_def)
  have start: "ten_extension_context_start_extension_group engine err = Some (True, err, ?e1)"
    using live cmd nonempty loop by (simp add: ten_extension_context_start_extension_group_def)
  have len: "length gs = length ?local"
    using order by (metis length_map size_mset)
  have members: "set gs = created_group ` set ?local"
    using order by (metis set_map set_mset_mset)
  have cnt: "extension_groups_cnt_of_the_current_app ?e1 cmd = length ?local"
    by (simp add: extension_groups_cnt_of_the_current_app_def local_groups_info_def)
  have live1: "ten_extension_context_check_integrity (extension_context ?e1)"
    using live by simp
  have cmd1: "original_start_graph_cmd_of_enabling_engine ?e1 = Some cmd"
    using cmd by simp
  have before: "\<exists>e gs'. create_extension_group_done_each ?e1 (take k gs) = Some (e, gs') \<and>
           ten_extension_context_check_integrity (extension_context e) \<and>
           original_start_graph_cmd_of_enabling_engine e = Some cmd \<and>
           app e = app ?e1 \<and> engine_id e = engine_id ?e1 \<and>
           effects e = effects ?e1 \<and>
           extensions_info_from_graph (extension_context e) =
             extensions_info_from_graph (extension_context ?e1) \<and>
           extension_groups_info_from_graph (extension_context e) =
             extension_groups_info_from_graph (extension_context ?e1) \<and>
           extension_threads (extension_context e) =
             extension_threads (extension_context ?e1) @ map (extension_thread_of ?e1) (take k gs)"
    if "k < length gs" for k
    using that fresh(3) len cnt by (intro done_each_before_all [OF live1 cmd1 type]) simp
  have part1: "\<forall>k < length gs. \<exists>e gs'.
              create_extension_group_done_each ?e1 (take k gs) = Some (e, gs') \<and>
              effects e = effects engine \<and>
              extensions_info_from_graph (extension_context e) = [] \<and>
              extension_groups_info_from_graph (extension_context e) = [] \<and>
              length (extension_threads (extension_context e)) = k"
  proof (intro allI impI)
    fix k assume k: "k < length gs"
    from before [OF k] obtain e gs' where
      "create_extension_group_done_each ?e1 (take k gs) = Some (e, gs')"
      "effects e = effects ?e1"
      "extensions_info_from_graph (extension_context e) =
         extensions_info_from_graph (extension_context ?e1)"
      "extension_groups_info_from_graph (extension_context e) =
         extension_groups_info_from_graph (extension_context ?e1)"
      "extension_threads (extension_context e) =
         extension_threads (extension_context ?e1) @ map (extension_thread_of ?e1) (take k gs)"
      by blast
    then show "\<exists>e gs'.
              create_extension_group_done_each ?e1 (take k gs) = Some (e, gs') \<and>
              effects e = effects engine \<and>
              extensions_info_from_graph (extension_context e) = [] \<and>
              extension_groups_info_from_graph (extension_context e) = [] \<and>
              length (extension_threads (extension_context e)) = k"
      using fresh k by simp
  qed
  have gs_nonempty: "gs \<noteq> []"
    using len some_local by auto
  obtain pre g where gs_eq: "gs = pre @ [g]"
    using gs_nonempty by (meson rev_exhaust)
  have k: "length pre < length gs" using gs_eq by simp
  have take_pre: "take (length pre) gs = pre" using gs_eq by simp
  from before [OF k] obtain e2 pre' where e2:
      "create_extension_group_done_each ?e1 pre = Some (e2, pre')"
      "ten_extension_context_check_integrity (extension_context e2)"
      "original_start_graph_cmd_of_enabling_engine e2 = Some cmd"
      "app e2 = app ?e1" "engine_id e2 = engine_id ?e1"
      "effects e2 = effects ?e1"
      "extensions_info_from_graph (extension_context e2) =
         extensions_info_from_graph (extension_context ?e1)"
      "extension_groups_info_from_graph (extension_context e2) =
         extension_groups_info_from_graph (extension_context ?e1)"
      "extension_threads (extension_context e2) =
         extension_threads (extension_context ?e1) @ map (extension_thread_of ?e1) pre"
    unfolding take_pre by blast
  have "g \<in> set gs" using gs_eq by simp
  then obtain info where info: "info \<in> set ?local" "g = created_group info"
    using members by auto
  have info': "info \<in> set (extension_groups_info cmd)" "app_uri (gi_loc info) = uri (app e2)"
      "extension_group_instance_name info = name g"
    using info e2(4) by (auto simp: local_groups_info_def created_group_def)
  have cnt2: "extension_groups_cnt_of_the_current_app e2 cmd =
              Suc (length (extension_threads (extension_context e2)))"
  proof -
    have "length ?local = Suc (length pre)" using len gs_eq by simp
    then show ?thesis
      using e2(4,9) fresh(3) cnt
      by (simp add: extension_groups_cnt_of_the_current_app_def)
  qed
  have fresh2: "extensions_info_from_graph (extension_context e2) = []"
      "extension_groups_info_from_graph (extension_context e2) = []"
    using e2(7,8) fresh by simp_all
  from done_last [OF e2(2) e2(3) type fresh2 cnt2 info']
  obtain e3 g3 line where e3:
    "ten_extension_context_create_extension_group_done e2 g = Some (e3, g3)"
    "extensions_info_from_graph (extension_context e3) = extensions_info cmd"
    "extension_groups_info_from_graph (extension_context e3) = extension_groups_info cmd"
    "extension_threads (extension_context e3) =
       extension_threads (extension_context e2) @ [extension_thread_of e2 g]"
    "effects e3 = effects e2 @ [TEN_LOGM (''[graph resources] {'' @ line @ ''}'')] @
       map ten_extension_thread_start (extension_threads (extension_context e3))"
    by blast
  have run: "create_extension_group_done_each ?e1 gs = Some (e3, pre' @ [g3])"
    using e2(1) e3(1) by (simp add: gs_eq done_each_append)
  have same: "extension_thread_of e2 = extension_thread_of engine"
      "extension_thread_of ?e1 = extension_thread_of engine"
    using e2(5) by (simp_all add: fun_eq_iff extension_thread_of_def)
  have threads: "extension_threads (extension_context e3) = map (extension_thread_of engine) gs"
    using e3(4) e2(9) fresh(3) same by (simp add: gs_eq)
  have part2: "\<exists>e gs' line.
              create_extension_group_done_each ?e1 gs = Some (e, gs') \<and>
              extensions_info_from_graph (extension_context e) = extensions_info cmd \<and>
              extension_groups_info_from_graph (extension_context e) =
                extension_groups_info cmd \<and>
              extension_threads (extension_context e) = map (extension_thread_of engine) gs \<and>
              length (extension_threads (extension_context e)) = length ?local \<and>
              effects e = effects engine @ [TEN_LOGM (''[graph resources] {'' @ line @ ''}'')] @
                map ten_extension_thread_start (extension_threads (extension_context e))"
    using run e3(2,3,5) threads len e2(6) by auto
  show ?thesis
    using start part1 part2 by (intro exI [of _ ?e1]) simp
qed

theorem create_extension_group_done_all_created_witness:
  "\<exists>engine1.
     ten_extension_context_start_extension_group (sample_engine two_local_groups_cmd) None =
       Some (True, None, engine1) \<and>
     (\<exists>e gs'.
        create_extension_group_done_each engine1
          [created_group (sample_group_info ''msgpack://127.0.0.1:8001/'' ''my_group'' ''group3'')] =
          Some (e, gs') \<and>
        effects e = [] \<and> length (extension_threads (extension_context e)) = 1) \<and>
     (\<exists>e gs' line.
        create_extension_group_done_each engine1
          [created_group (sample_group_info ''msgpack://127.0.0.1:8001/'' ''my_group'' ''group3''),
           created_group (sample_group_info ''msgpack://127.0.0.1:8001/''
              ''default_extension_group'' ''group1'')] = Some (e, gs') \<and>
        extensions_info_from_graph (extension_context e) =
          extensions_info two_local_groups_cmd \<and>
        effects e =
          [TEN_LOGM (''[graph resources] {'' @ line @ ''}''),
           ten_extension_thread_start
             \<lparr> thread_extension_group = ''group3'', thread_extension_context = ''g1'' \<rparr>,
           ten_extension_thread_start
             \<lparr> thread_extension_group = ''group1'', thread_extension_context = ''g1'' \<rparr>])"
proof -
  let ?E = "sample_engine two_local_groups_cmd"
  let ?g1 = "created_group (sample_group_info ''msgpack://127.0.0.1:8001/''
              ''default_extension_group'' ''group1'')"
  let ?g3 = "created_group (sample_group_info ''msgpack://127.0.0.1:8001/'' ''my_group'' ''group3'')"
  have loc: "local_groups_info ?E two_local_groups_cmd =
      [sample_group_info ''msgpack://127.0.0.1:8001/'' ''default_extension_group'' ''group1'',
       sample_group_info ''msgpack://127.0.0.1:8001/'' ''my_group'' ''group3'']"
    by (simp add: local_groups_info_def sample_engine_simps sample_app_def
        two_local_groups_cmd_def sample_group_info_def)
  have type: "msg_type two_local_groups_cmd = TEN_MSG_TYPE_CMD_START_GRAPH"
      "length (dest_locs two_local_groups_cmd) = 1"
    by (simp_all add: two_local_groups_cmd_def)
  have some_local: "local_groups_info ?E two_local_groups_cmd \<noteq> []"
    by (simp add: loc)
  have resolved: "\<forall>info \<in> set (local_groups_info ?E two_local_groups_cmd).
      extension_group_addon_name info \<in> set (extension_group_addons (app ?E))"
    by (simp add: loc sample_engine_simps sample_app_def sample_group_info_def)
  have order: "mset [?g3, ?g1] = mset (map created_group (local_groups_info ?E two_local_groups_cmd))"
    by (simp add: loc)
  from create_extension_group_done_all_created
    [OF sample_engine_live sample_engine_simps(1) type sample_engine_simps(2,3,4,5)
        some_local resolved order, of None]
  obtain engine1 where r:
    "ten_extension_context_start_extension_group ?E None = Some (True, None, engine1)"
    "\<forall>k < length [?g3, ?g1]. \<exists>e gs'.
        create_extension_group_done_each engine1 (take k [?g3, ?g1]) = Some (e, gs') \<and>
        effects e = effects ?E \<and>
        extensions_info_from_graph (extension_context e) = [] \<and>
        extension_groups_info_from_graph (extension_context e) = [] \<and>
        length (extension_threads (extension_context e)) = k"
    "\<exists>e gs' line.
        create_extension_group_done_each engine1 [?g3, ?g1] = Some (e, gs') \<and>
        extensions_info_from_graph (extension_context e) = extensions_info two_local_groups_cmd \<and>
        extension_groups_info_from_graph (extension_context e) =
          extension_groups_info two_local_groups_cmd \<and>
        extension_threads (extension_context e) = map (extension_thread_of ?E) [?g3, ?g1] \<and>
        length (extension_threads (extension_context e)) =
          length (local_groups_info ?E two_local_groups_cmd) \<and>
        effects e = effects ?E @ [TEN_LOGM (''[graph resources] {'' @ line @ ''}'')] @
          map ten_extension_thread_start (extension_threads (extension_context e))"
    by blast
  have one: "\<exists>e gs'. create_extension_group_done_each engine1 [?g3] = Some (e, gs') \<and>
        effects e = [] \<and> length (extension_threads (extension_context e)) = 1"
  proof -
    have t: "take 1 [?g3, ?g1] = [?g3]" by simp
    have "(1::nat) < length [?g3, ?g1]" by simp
    from r(2) [rule_format, OF this] obtain e gs' where
      "create_extension_group_done_each engine1 (take 1 [?g3, ?g1]) = Some (e, gs')"
      "effects e = effects ?E" "length (extension_threads (extension_context e)) = 1"
      by blast
    then have "create_extension_group_done_each engine1 [?g3] = Some (e, gs')"
      "effects e = []" "length (extension_threads (extension_context e)) = 1"
      unfolding t sample_engine_simps by blast+
    then show ?thesis by blast
  qed
  from r(3) obtain e gs' line where all:
    "create_extension_group_done_each engine1 [?g3, ?g1] = Some (e, gs')"
    "extensions_info_from_graph (extension_context e) = extensions_info two_local_groups_cmd"
    "extension_threads (extension_context e) = map (extension_thread_of ?E) [?g3, ?g1]"
    "effects e = effects ?E @ [TEN_LOGM (''[graph resources] {'' @ line @ ''}'')] @
          map ten_extension_thread_start (extension_threads (extension_context e))"
    by blast
  have "effects e =
          [TEN_LOGM (''[graph resources] {'' @ line @ ''}''),
           ten_extension_thread_start
             \<lparr> thread_extension_group = ''group3'', thread_extension_context = ''g1'' \<rparr>,
           ten_extension_thread_start
             \<lparr> thread_extension_group = ''group1'', thread_extension_context = ''g1'' \<rparr>]"
    using all(3,4)
    by (simp add: sample_engine_simps extension_thread_of_def created_group_def
        sample_group_info_def)
  then show ?thesis using r(1) one all(1,2) by blast
qed

text \<open>
  C5. When the completion callback returns for a created group, and the addon of the
  group is the built-in \<^verbatim>\<open>default_extension_group\<close>, the original StartGraph command
  has exactly one destination and the group's list of (extension addon name, extension
  instance name) pairs is the list that the command yields for the app uri and graph id
  of that destination and the name of the group; for a group of any other addon the
  list is what it was before the callback.
\<close>

theorem create_extension_group_done_pairs:
  assumes ret: "ten_extension_context_create_extension_group_done engine g = Some (engine', g')"
    and cmd: "original_start_graph_cmd_of_enabling_engine engine = Some cmd"
  shows "(addon_host_name g = TEN_STR_DEFAULT_EXTENSION_GROUP \<longrightarrow>
            (\<exists>dest_loc. dest_locs cmd = [dest_loc] \<and>
               extension_addon_and_instance_name_pairs g' =
                 ten_cmd_start_graph_get_extension_addon_and_instance_name_pairs_of_specified_extension_group
                   cmd (app_uri dest_loc) (graph_id dest_loc) (name g))) \<and>
         (addon_host_name g \<noteq> TEN_STR_DEFAULT_EXTENSION_GROUP \<longrightarrow>
            extension_addon_and_instance_name_pairs g' =
              extension_addon_and_instance_name_pairs g)"
  using ret cmd
  by (auto simp: ten_extension_context_create_extension_group_done_def
      fill_default_extension_group_def all_extension_groups_created_def Let_def
      split: if_splits option.splits list.splits)

theorem create_extension_group_done_pairs_witness:
  "(\<exists>engine' g'.
      ten_extension_context_create_extension_group_done (sample_engine two_local_groups_cmd)
        (created_group (sample_group_info ''msgpack://127.0.0.1:8001/''
           ''default_extension_group'' ''group1'')) = Some (engine', g') \<and>
      extension_addon_and_instance_name_pairs g' = [(''ext1_addon'', ''ext1'')]) \<and>
   (\<exists>engine' g'.
      ten_extension_context_create_extension_group_done (sample_engine two_local_groups_cmd)
        (created_group (sample_group_info ''msgpack://127.0.0.1:8001/''
           ''my_group'' ''group3'')) = Some (engine', g') \<and>
      extension_addon_and_instance_name_pairs g' = [])"
proof -
  let ?E = "sample_engine two_local_groups_cmd"
  let ?g1 = "created_group (sample_group_info ''msgpack://127.0.0.1:8001/''
              ''default_extension_group'' ''group1'')"
  let ?g3 = "created_group (sample_group_info ''msgpack://127.0.0.1:8001/'' ''my_group'' ''group3'')"
  have type: "msg_type two_local_groups_cmd = TEN_MSG_TYPE_CMD_START_GRAPH"
      "length (dest_locs two_local_groups_cmd) = 1"
    by (simp_all add: two_local_groups_cmd_def)
  have more: "extension_groups_cnt_of_the_current_app ?E two_local_groups_cmd \<noteq>
      Suc (length (extension_threads (extension_context ?E)))"
    by (simp add: extension_groups_cnt_of_the_current_app_def sample_engine_simps sample_app_def
        two_local_groups_cmd_def sample_group_info_def)
  obtain a where a: "ten_extension_context_create_extension_group_done ?E ?g1 =
      Some (register_extension_thread (extension_thread_of ?E ?g1) ?E, a)"
    using done_not_last [OF sample_engine_live sample_engine_simps(1) type more] by blast
  obtain b where b: "ten_extension_context_create_extension_group_done ?E ?g3 =
      Some (register_extension_thread (extension_thread_of ?E ?g3) ?E, b)"
    using done_not_last [OF sample_engine_live sample_engine_simps(1) type more] by blast
  have "extension_addon_and_instance_name_pairs a = [(''ext1_addon'', ''ext1'')]"
    using create_extension_group_done_pairs [OF a sample_engine_simps(1)]
    by (simp add: created_group_def sample_group_info_def TEN_STR_DEFAULT_EXTENSION_GROUP_def
        two_local_groups_cmd_def sample_dest_def sample_extension_info_def
        ten_cmd_start_graph_get_extension_addon_and_instance_name_pairs_of_specified_extension_group_def)
  moreover have "extension_addon_and_instance_name_pairs b = []"
    using create_extension_group_done_pairs [OF b sample_engine_simps(1)]
    by (simp add: created_group_def sample_group_info_def TEN_STR_DEFAULT_EXTENSION_GROUP_def)
  ultimately show ?thesis using a b by blast
qed

section \<open>Closing the context\<close>

lemma calls_emit:
  "calls (emit es e) = calls e @ filter (\<lambda>x. \<not> is_log x) es"
  by (simp add: calls_def emit_def)

lemma calls_context_update:
  "calls (e\<lparr>extension_context := c\<rparr>) = calls e"
  by (simp add: calls_def)

lemma terminal_step:
  assumes "ten_extension_context_check_integrity (extension_context e)"
    and "extension_threads (extension_context e) = []"
  shows "\<exists>e'. ten_extension_context_do_close_after_all_extension_threads_are_closed e = Some e' \<and>
           signature (extension_context e') = SIGNATURE_ZERO \<and>
           extension_threads_cnt_of_closed (extension_context e') =
             extension_threads_cnt_of_closed (extension_context e) \<and>
           extension_threads_total_cnt (extension_context e') =
             extension_threads_total_cnt (extension_context e) \<and>
           calls e' = calls e @ [ten_env_close] @
             (if on_closed (extension_context e) then [on_closed_called] else [])"
  using assms
  by (simp add: ten_extension_context_do_close_after_all_extension_threads_are_closed_def
      ten_extension_context_destroy_def calls_emit calls_context_update)

lemma closed_report_last:
  assumes live: "ten_extension_context_check_integrity (extension_context e)"
    and one: "extension_threads (extension_context e) = [t]"
    and count: "Suc (extension_threads_cnt_of_closed (extension_context e)) =
                extension_threads_total_cnt (extension_context e)"
  shows "\<exists>e'. ten_engine_on_extension_thread_closed e t = Some e' \<and>
           signature (extension_context e') = SIGNATURE_ZERO \<and>
           extension_threads_cnt_of_closed (extension_context e') =
             extension_threads_total_cnt (extension_context e) \<and>
           extension_threads_total_cnt (extension_context e') =
             extension_threads_total_cnt (extension_context e) \<and>
           calls e' = calls e @ [ten_env_close] @
             (if on_closed (extension_context e) then [on_closed_called] else [])"
proof -
  let ?e1 = "e\<lparr>extension_context := (extension_context e)
           \<lparr> extension_threads := remove1 t (extension_threads (extension_context e)),
             extension_threads_cnt_of_closed :=
               extension_threads_cnt_of_closed (extension_context e) + 1 \<rparr>\<rparr>"
  let ?e2 = "emit [TEN_LOGD (''['' @ engine_id ?e1 @
                           ''] Extension context can be closed now'')] ?e1"
  have live2: "ten_extension_context_check_integrity (extension_context ?e2)"
    using live by (simp add: ten_extension_context_check_integrity_def emit_simps)
  have none: "extension_threads (extension_context ?e2) = []"
    using one by (simp add: emit_simps)
  from terminal_step [OF live2 none] obtain e' where e':
    "ten_extension_context_do_close_after_all_extension_threads_are_closed ?e2 = Some e'"
    "signature (extension_context e') = SIGNATURE_ZERO"
    "extension_threads_cnt_of_closed (extension_context e') =
       extension_threads_cnt_of_closed (extension_context ?e2)"
    "extension_threads_total_cnt (extension_context e') =
       extension_threads_total_cnt (extension_context ?e2)"
    "calls e' = calls ?e2 @ [ten_env_close] @
       (if on_closed (extension_context ?e2) then [on_closed_called] else [])"
    by blast
  have "ten_engine_on_extension_thread_closed e t = Some e'"
    using live live2 none count e'(1)
    by (simp add: ten_engine_on_extension_thread_closed_def ten_extension_context_on_close_def
        ten_extension_context_could_be_close_def ten_extension_context_do_close_def
        ten_extension_context_check_integrity_def emit_simps)
  then show ?thesis
    using e'(2-5) count by (simp add: emit_simps calls_emit calls_context_update)
qed

lemma closed_report_more:
  assumes live: "ten_extension_context_check_integrity (extension_context e)"
    and count: "Suc (extension_threads_cnt_of_closed (extension_context e)) \<noteq>
                extension_threads_total_cnt (extension_context e)"
  shows "\<exists>e'. ten_engine_on_extension_thread_closed e t = Some e' \<and>
           ten_extension_context_check_integrity (extension_context e') \<and>
           on_closed (extension_context e') = on_closed (extension_context e) \<and>
           extension_threads (extension_context e') =
             remove1 t (extension_threads (extension_context e)) \<and>
           extension_threads_cnt_of_closed (extension_context e') =
             Suc (extension_threads_cnt_of_closed (extension_context e)) \<and>
           extension_threads_total_cnt (extension_context e') =
             extension_threads_total_cnt (extension_context e) \<and>
           calls e' = calls e"
  using assms
  by (simp add: ten_engine_on_extension_thread_closed_def ten_extension_context_on_close_def
      ten_extension_context_could_be_close_def ten_extension_context_check_integrity_def
      emit_simps calls_emit calls_context_update)

lemma closed_reports:
  assumes "ten_extension_context_check_integrity (extension_context e)"
    and "distinct (extension_threads (extension_context e))"
    and "distinct reported"
    and "set reported \<subseteq> set (extension_threads (extension_context e))"
    and "extension_threads_cnt_of_closed (extension_context e) +
         length (extension_threads (extension_context e)) =
         extension_threads_total_cnt (extension_context e)"
    and "extension_threads (extension_context e) \<noteq> []"
  shows "\<exists>e'. extension_threads_closed e reported = Some e' \<and>
           extension_threads_cnt_of_closed (extension_context e') =
             extension_threads_cnt_of_closed (extension_context e) + length reported \<and>
           extension_threads_total_cnt (extension_context e') =
             extension_threads_total_cnt (extension_context e) \<and>
           (signature (extension_context e') = SIGNATURE_ZERO \<longleftrightarrow>
              length reported = length (extension_threads (extension_context e))) \<and>
           calls e' = calls e @
             (if length reported = length (extension_threads (extension_context e))
              then [ten_env_close] @
                (if on_closed (extension_context e) then [on_closed_called] else [])
              else [])"
  using assms
proof (induction reported arbitrary: e)
  case Nil
  then show ?case
    by (auto simp: ten_extension_context_check_integrity_def)
next
  case (Cons t rest)
  let ?ts = "extension_threads (extension_context e)"
  have t_in: "t \<in> set ?ts" using Cons.prems(4) by simp
  show ?case
  proof (cases "length ?ts = 1")
    case True
    then have one: "?ts = [t]"
      using t_in by (cases ?ts) auto
    have "set rest \<subseteq> {t}" "t \<notin> set rest"
      using Cons.prems(3,4) one by auto
    then have rest: "rest = []"
      by (cases rest) auto
    have count: "Suc (extension_threads_cnt_of_closed (extension_context e)) =
                 extension_threads_total_cnt (extension_context e)"
      using Cons.prems(5) True by simp
    from closed_report_last [OF Cons.prems(1) one count] obtain e' where
      "ten_engine_on_extension_thread_closed e t = Some e'"
      "signature (extension_context e') = SIGNATURE_ZERO"
      "extension_threads_cnt_of_closed (extension_context e') =
         extension_threads_total_cnt (extension_context e)"
      "extension_threads_total_cnt (extension_context e') =
         extension_threads_total_cnt (extension_context e)"
      "calls e' = calls e @ [ten_env_close] @
         (if on_closed (extension_context e) then [on_closed_called] else [])"
      by blast
    then show ?thesis
      using rest one count by simp
  next
    case False
    moreover have "length ?ts \<noteq> 0"
      using Cons.prems(6) by simp
    ultimately have two: "2 \<le> length ?ts"
      by linarith
    have count: "Suc (extension_threads_cnt_of_closed (extension_context e)) \<noteq>
                 extension_threads_total_cnt (extension_context e)"
      using Cons.prems(5) two by simp
    from closed_report_more [OF Cons.prems(1) count, of t] obtain e1 where e1:
      "ten_engine_on_extension_thread_closed e t = Some e1"
      "ten_extension_context_check_integrity (extension_context e1)"
      "on_closed (extension_context e1) = on_closed (extension_context e)"
      "extension_threads (extension_context e1) = remove1 t ?ts"
      "extension_threads_cnt_of_closed (extension_context e1) =
         Suc (extension_threads_cnt_of_closed (extension_context e))"
      "extension_threads_total_cnt (extension_context e1) =
         extension_threads_total_cnt (extension_context e)"
      "calls e1 = calls e"
      by blast
    have len1: "length (remove1 t ?ts) = length ?ts - 1"
      using t_in by (simp add: length_remove1)
    have d1: "distinct (extension_threads (extension_context e1))"
      using e1(4) Cons.prems(2) by simp
    have d2: "distinct rest" using Cons.prems(3) by simp
    have sub: "set rest \<subseteq> set (extension_threads (extension_context e1))"
      using e1(4) Cons.prems(2,3,4) by auto
    have sum: "extension_threads_cnt_of_closed (extension_context e1) +
         length (extension_threads (extension_context e1)) =
         extension_threads_total_cnt (extension_context e1)"
      using e1(4,5,6) len1 two Cons.prems(5) by simp
    have ne: "extension_threads (extension_context e1) \<noteq> []"
    proof -
      have "0 < length (extension_threads (extension_context e1))"
        using e1(4) len1 two by simp
      then show ?thesis by blast
    qed
    from Cons.IH [OF e1(2) d1 d2 sub sum ne] obtain e' where e':
      "extension_threads_closed e1 rest = Some e'"
      "extension_threads_cnt_of_closed (extension_context e') =
         extension_threads_cnt_of_closed (extension_context e1) + length rest"
      "extension_threads_total_cnt (extension_context e') =
         extension_threads_total_cnt (extension_context e1)"
      "signature (extension_context e') = SIGNATURE_ZERO \<longleftrightarrow>
         length rest = length (extension_threads (extension_context e1))"
      "calls e' = calls e1 @
         (if length rest = length (extension_threads (extension_context e1))
          then [ten_env_close] @
            (if on_closed (extension_context e1) then [on_closed_called] else [])
          else [])"
      by blast
    have iff: "length rest = length (extension_threads (extension_context e1)) \<longleftrightarrow>
               length (t # rest) = length ?ts"
      using e1(4) len1 two by auto
    show ?thesis
      using e1(1,3,5,6,7) e' iff by simp
  qed
qed
text \<open>
  The close protocol as the code keeps it. On a live context,
  \<^verbatim>\<open>ten_extension_context_close\<close> runs the terminal step (closing the engine's
  \<^verbatim>\<open>ten_env\<close>, calling \<^verbatim>\<open>on_closed\<close> when one is set, destroying the context)
  at once when \<^verbatim>\<open>extension_threads\<close> is empty. Otherwise it sets the closed count
  to 0 and the total count to the number of threads and closes every thread, without
  the terminal step; after the closed reports of any distinct threads of the list, the
  closed count is the number of reports received, it does not exceed the total count
  recorded at the close, and the terminal step has run exactly when the two are equal.
\<close>

theorem extension_context_close_protocol:
  assumes live: "ten_extension_context_check_integrity (extension_context engine)"
  shows "(extension_threads (extension_context engine) = [] \<longrightarrow>
            (\<exists>engine'. ten_extension_context_close engine = Some engine' \<and>
               signature (extension_context engine') = SIGNATURE_ZERO \<and>
               calls engine' = calls engine @ [ten_env_close] @
                 (if on_closed (extension_context engine) then [on_closed_called] else []))) \<and>
         (extension_threads (extension_context engine) \<noteq> [] \<and>
          distinct (extension_threads (extension_context engine)) \<longrightarrow>
            (\<exists>engine0. ten_extension_context_close engine = Some engine0 \<and>
               signature (extension_context engine0) = TEN_EXTENSION_CONTEXT_SIGNATURE \<and>
               extension_threads_cnt_of_closed (extension_context engine0) = 0 \<and>
               extension_threads_total_cnt (extension_context engine0) =
                 length (extension_threads (extension_context engine)) \<and>
               calls engine0 = calls engine @
                 map ten_extension_thread_close (extension_threads (extension_context engine)) \<and>
               (\<forall>reported.
                  distinct reported \<and>
                  set reported \<subseteq> set (extension_threads (extension_context engine)) \<longrightarrow>
                  (\<exists>engine'. extension_threads_closed engine0 reported = Some engine' \<and>
                     extension_threads_cnt_of_closed (extension_context engine') =
                       length reported \<and>
                     extension_threads_total_cnt (extension_context engine') =
                       length (extension_threads (extension_context engine)) \<and>
                     extension_threads_cnt_of_closed (extension_context engine') \<le>
                       extension_threads_total_cnt (extension_context engine') \<and>
                     (signature (extension_context engine') = SIGNATURE_ZERO \<longleftrightarrow>
                        extension_threads_cnt_of_closed (extension_context engine') =
                          extension_threads_total_cnt (extension_context engine')) \<and>
                     calls engine' = calls engine0 @
                       (if length reported =
                           length (extension_threads (extension_context engine))
                        then [ten_env_close] @
                          (if on_closed (extension_context engine)
                           then [on_closed_called] else [])
                        else [])))))"
proof (intro conjI impI)
  let ?line = "TEN_LOGD (''['' @ engine_id engine @ ''] Try to close extension context'')"
  assume none: "extension_threads (extension_context engine) = []"
  have "ten_extension_context_check_integrity (extension_context (emit [?line] engine))"
    "extension_threads (extension_context (emit [?line] engine)) = []"
    using live none by (simp_all add: emit_simps)
  from terminal_step [OF this] obtain e' where
    "ten_extension_context_do_close_after_all_extension_threads_are_closed
       (emit [?line] engine) = Some e'"
    "signature (extension_context e') = SIGNATURE_ZERO"
    "calls e' = calls (emit [?line] engine) @ [ten_env_close] @
       (if on_closed (extension_context (emit [?line] engine)) then [on_closed_called] else [])"
    by blast
  then show "\<exists>engine'. ten_extension_context_close engine = Some engine' \<and>
               signature (extension_context engine') = SIGNATURE_ZERO \<and>
               calls engine' = calls engine @ [ten_env_close] @
                 (if on_closed (extension_context engine) then [on_closed_called] else [])"
    using live none by (simp add: ten_extension_context_close_def emit_simps calls_emit)
next
  let ?ts = "extension_threads (extension_context engine)"
  let ?line = "TEN_LOGD (''['' @ engine_id engine @ ''] Try to close extension context'')"
  let ?e0 = "(emit (?line # map ten_extension_thread_close ?ts) engine)
                \<lparr>extension_context := (extension_context engine)
                   \<lparr> extension_threads_cnt_of_closed := 0,
                     extension_threads_total_cnt := length ?ts \<rparr>\<rparr>"
  assume some: "?ts \<noteq> [] \<and> distinct ?ts"
  have close: "ten_extension_context_close engine = Some ?e0"
    using live some by (simp add: ten_extension_context_close_def)
  have live0: "ten_extension_context_check_integrity (extension_context ?e0)"
    using live by (simp add: ten_extension_context_check_integrity_def)
  have calls0: "calls ?e0 = calls engine @ map ten_extension_thread_close ?ts"
    by (simp add: calls_context_update calls_emit filter_map comp_def)
  have reports: "\<exists>engine'. extension_threads_closed ?e0 reported = Some engine' \<and>
                     extension_threads_cnt_of_closed (extension_context engine') =
                       length reported \<and>
                     extension_threads_total_cnt (extension_context engine') = length ?ts \<and>
                     extension_threads_cnt_of_closed (extension_context engine') \<le>
                       extension_threads_total_cnt (extension_context engine') \<and>
                     (signature (extension_context engine') = SIGNATURE_ZERO \<longleftrightarrow>
                        extension_threads_cnt_of_closed (extension_context engine') =
                          extension_threads_total_cnt (extension_context engine')) \<and>
                     calls engine' = calls ?e0 @
                       (if length reported = length ?ts
                        then [ten_env_close] @
                          (if on_closed (extension_context engine)
                           then [on_closed_called] else [])
                        else [])"
    if r: "distinct reported \<and> set reported \<subseteq> set ?ts" for reported
  proof -
    have "distinct (extension_threads (extension_context ?e0))"
      "distinct reported"
      "set reported \<subseteq> set (extension_threads (extension_context ?e0))"
      "extension_threads_cnt_of_closed (extension_context ?e0) +
         length (extension_threads (extension_context ?e0)) =
         extension_threads_total_cnt (extension_context ?e0)"
      "extension_threads (extension_context ?e0) \<noteq> []"
      using some r by simp_all
    from closed_reports [OF live0 this] obtain e' where e':
      "extension_threads_closed ?e0 reported = Some e'"
      "extension_threads_cnt_of_closed (extension_context e') =
         extension_threads_cnt_of_closed (extension_context ?e0) + length reported"
      "extension_threads_total_cnt (extension_context e') =
         extension_threads_total_cnt (extension_context ?e0)"
      "signature (extension_context e') = SIGNATURE_ZERO \<longleftrightarrow>
         length reported = length (extension_threads (extension_context ?e0))"
      "calls e' = calls ?e0 @
         (if length reported = length (extension_threads (extension_context ?e0))
          then [ten_env_close] @
            (if on_closed (extension_context ?e0) then [on_closed_called] else [])
          else [])"
      by blast
    have "card (set reported) \<le> card (set ?ts)"
      using r by (intro card_mono) simp_all
    then have "length reported \<le> length ?ts"
      using r some by (simp add: distinct_card)
    then show ?thesis using e' by simp
  qed
  show "\<exists>engine0. ten_extension_context_close engine = Some engine0 \<and>
               signature (extension_context engine0) = TEN_EXTENSION_CONTEXT_SIGNATURE \<and>
               extension_threads_cnt_of_closed (extension_context engine0) = 0 \<and>
               extension_threads_total_cnt (extension_context engine0) = length ?ts \<and>
               calls engine0 = calls engine @ map ten_extension_thread_close ?ts \<and>
               (\<forall>reported. distinct reported \<and> set reported \<subseteq> set ?ts \<longrightarrow>
                  (\<exists>engine'. extension_threads_closed engine0 reported = Some engine' \<and>
                     extension_threads_cnt_of_closed (extension_context engine') =
                       length reported \<and>
                     extension_threads_total_cnt (extension_context engine') = length ?ts \<and>
                     extension_threads_cnt_of_closed (extension_context engine') \<le>
                       extension_threads_total_cnt (extension_context engine') \<and>
                     (signature (extension_context engine') = SIGNATURE_ZERO \<longleftrightarrow>
                        extension_threads_cnt_of_closed (extension_context engine') =
                          extension_threads_total_cnt (extension_context engine')) \<and>
                     calls engine' = calls engine0 @
                       (if length reported = length ?ts
                        then [ten_env_close] @
                          (if on_closed (extension_context engine)
                           then [on_closed_called] else [])
                        else [])))"
  proof -
    have sig0: "signature (extension_context ?e0) = TEN_EXTENSION_CONTEXT_SIGNATURE"
      using live0 by (simp add: ten_extension_context_check_integrity_def)
    have cnt0: "extension_threads_cnt_of_closed (extension_context ?e0) = 0"
      "extension_threads_total_cnt (extension_context ?e0) = length ?ts"
      by simp_all
    show ?thesis
      using close sig0 cnt0 calls0 reports by blast
  qed
qed

theorem extension_context_close_protocol_witness:
  "\<exists>engine0. ten_extension_context_close running_engine = Some engine0 \<and>
     calls engine0 = [ten_extension_thread_close (sample_thread ''group1''),
                      ten_extension_thread_close (sample_thread ''group3'')] \<and>
     (\<exists>engine'. extension_threads_closed engine0 [sample_thread ''group3''] = Some engine' \<and>
        extension_threads_cnt_of_closed (extension_context engine') = 1 \<and>
        extension_threads_total_cnt (extension_context engine') = 2 \<and>
        signature (extension_context engine') \<noteq> SIGNATURE_ZERO \<and>
        calls engine' = calls engine0) \<and>
     (\<exists>engine'. extension_threads_closed engine0
           [sample_thread ''group3'', sample_thread ''group1''] = Some engine' \<and>
        extension_threads_cnt_of_closed (extension_context engine') = 2 \<and>
        extension_threads_total_cnt (extension_context engine') = 2 \<and>
        signature (extension_context engine') = SIGNATURE_ZERO \<and>
        calls engine' = calls engine0 @ [ten_env_close, on_closed_called])"
proof -
  have live: "ten_extension_context_check_integrity (extension_context running_engine)"
    by (simp add: running_engine_def sample_context_def
        ten_extension_context_check_integrity_def)
  have ts: "extension_threads (extension_context running_engine) =
      [sample_thread ''group1'', sample_thread ''group3'']"
    by (simp add: running_engine_def)
  have some: "extension_threads (extension_context running_engine) \<noteq> [] \<and>
      distinct (extension_threads (extension_context running_engine))"
    by (simp add: ts sample_thread_def)
  have oc: "on_closed (extension_context running_engine)"
    by (simp add: running_engine_def sample_context_def)
  have c0: "calls running_engine = []"
    by (simp add: calls_def running_engine_def sample_engine_simps)
  from extension_context_close_protocol [OF live, THEN conjunct2, rule_format, OF some]
  obtain engine0 where e0:
    "ten_extension_context_close running_engine = Some engine0"
    "calls engine0 = calls running_engine @
       map ten_extension_thread_close (extension_threads (extension_context running_engine))"
    "\<And>reported. distinct reported \<and>
        set reported \<subseteq> set (extension_threads (extension_context running_engine)) \<Longrightarrow>
        (\<exists>engine'. extension_threads_closed engine0 reported = Some engine' \<and>
           extension_threads_cnt_of_closed (extension_context engine') = length reported \<and>
           extension_threads_total_cnt (extension_context engine') =
             length (extension_threads (extension_context running_engine)) \<and>
           extension_threads_cnt_of_closed (extension_context engine') \<le>
             extension_threads_total_cnt (extension_context engine') \<and>
           (signature (extension_context engine') = SIGNATURE_ZERO \<longleftrightarrow>
              extension_threads_cnt_of_closed (extension_context engine') =
                extension_threads_total_cnt (extension_context engine')) \<and>
           calls engine' = calls engine0 @
             (if length reported = length (extension_threads (extension_context running_engine))
              then [ten_env_close] @
                (if on_closed (extension_context running_engine)
                 then [on_closed_called] else [])
              else []))"
    by blast
  have a: "\<exists>engine'. extension_threads_closed engine0 [sample_thread ''group3''] = Some engine' \<and>
        extension_threads_cnt_of_closed (extension_context engine') = 1 \<and>
        extension_threads_total_cnt (extension_context engine') = 2 \<and>
        signature (extension_context engine') \<noteq> SIGNATURE_ZERO \<and>
        calls engine' = calls engine0"
    using e0(3) [of "[sample_thread ''group3'']"] by (auto simp: ts sample_thread_def)
  have b: "\<exists>engine'. extension_threads_closed engine0
           [sample_thread ''group3'', sample_thread ''group1''] = Some engine' \<and>
        extension_threads_cnt_of_closed (extension_context engine') = 2 \<and>
        extension_threads_total_cnt (extension_context engine') = 2 \<and>
        signature (extension_context engine') = SIGNATURE_ZERO \<and>
        calls engine' = calls engine0 @ [ten_env_close, on_closed_called]"
    using e0(3) [of "[sample_thread ''group3'', sample_thread ''group1'']"] oc
    by (auto simp: ts sample_thread_def)
  have c: "calls engine0 = [ten_extension_thread_close (sample_thread ''group1''),
                      ten_extension_thread_close (sample_thread ''group3'')]"
    using e0(2) by (simp add: ts c0)
  show ?thesis using e0(1) a b c by blast
qed

text \<open>
  C2 on the immediate path, where the code misses the claim.
  \<^verbatim>\<open>ten_extension_context_create\<close> assigns \<^verbatim>\<open>extension_threads_cnt_of_ready\<close>
  and \<^verbatim>\<open>extension_threads_cnt_of_closed\<close> but not
  \<^verbatim>\<open>extension_threads_total_cnt\<close>, and \<^verbatim>\<open>ten_extension_context_close\<close> returns
  from its no-thread branch before it assigns either count. For a context as
  \<^verbatim>\<open>ten_extension_context_create\<close> leaves it on memory that held 7 in that word,
  close runs the terminal step at once (log line, \<^verbatim>\<open>ten_env_close\<close>, signature
  cleared) with a closed count of 0 and a total count of 7: the two are not equal when
  the terminal step runs, as the claim says they are.
\<close>

theorem extension_context_close_immediate_total_cnt_unassigned:
  "extension_threads (extension_context fresh_engine) = [] \<and>
   ten_extension_context_close fresh_engine =
     Some (fresh_engine
       \<lparr> extension_context := (extension_context fresh_engine)\<lparr>signature := SIGNATURE_ZERO\<rparr>,
         effects := [TEN_LOGD ''[g1] Try to close extension context'', ten_env_close] \<rparr>) \<and>
   extension_threads_cnt_of_closed (extension_context fresh_engine) = 0 \<and>
   extension_threads_total_cnt (extension_context fresh_engine) = 7"
  by (simp add: fresh_engine_def ten_extension_context_create_def
      ten_extension_context_close_def ten_extension_context_check_integrity_def
      ten_extension_context_do_close_after_all_extension_threads_are_closed_def
      ten_extension_context_destroy_def emit_def sample_engine_def)

section \<open>The tester's log binding after the tester is closed\<close>



text \<open>
  On an open tester whose proxy takes the task, the posted context carries the line
  number as the \<^verbatim>\<open>size_t\<close> word holds it: \<open>- 1\<close> is posted as 4294967295.
\<close>

lemma tester_log_negative_line_no:
  "ten_py_ten_env_tester_log
     \<lparr> c_ten_env_tester_proxy = Some \<lparr> notify_refused = None \<rparr> \<rparr>
     [PyLong 3, Py_None, Py_None, PyLong (- 1), Py_None, PyUnicode ''m'', PyLong 0, Py_None] =
     (Return_None,
      [\<lparr> level = 3, func_name = [], file_name = [], line_no = 4294967295, msg = ''m'',
         category = [], completed = False, fields_buf = None, fields_buf_size = 0 \<rparr>])"
  by (simp add: ten_py_ten_env_tester_log_def ten_env_tester_notify_log_ctx_create_def)

section \<open>The ping-pong of the long-running app\<close>

lemma commands_sent_append:
  "commands_sent (xs @ ys) = commands_sent xs @ commands_sent ys"
  by (simp add: commands_sent_def)

lemma sent_in_append: "sent_in ext (xs @ ys) = sent_in ext xs @ sent_in ext ys"
  by (simp add: sent_in_def commands_sent_append)

lemma sent_in_rounds:
  "sent_in ext (concat (replicate n r)) = concat (replicate n (sent_in ext r))"
  by (induction n) (simp_all add: sent_in_append, simp add: sent_in_def commands_sent_def)

lemma concat_replicate_single: "concat (replicate n [x]) = replicate n x"
  by (induction n) simp_all

lemma sent_in_resend_round:
  "sent_in Extension_1 resend_round = [test_cmd_from_1]"
  "sent_in Extension_2 resend_round = [test_cmd_from_2]"
  by (simp_all add: sent_in_def resend_round_def extension_2_on_cmd_def extension_1_on_cmd_def
      commands_sent_def test_cmd_from_1_def test_cmd_from_2_def)

lemma sent_in_closing_round:
  "sent_in Extension_1 closing_round = [close_app]"
  "sent_in Extension_2 closing_round = [test_cmd_from_2]"
  by (simp_all add: sent_in_def closing_round_def extension_2_on_cmd_def extension_1_on_cmd_def
      commands_sent_def test_cmd_from_1_def test_cmd_from_2_def)

lemma app_start_waiting: "app_start = waiting 0"
  by (simp add: app_start_def waiting_def after_callback_def extension_1_on_start_def
      commands_sent_def close_requested_def route_def test_cmd_from_1_def start_calls_def)

lemma deliver_to_extension_2:
  "deliver (waiting k) =
     (waiting k)\<lparr> in_flight := [(Extension_1, test_cmd_from_2)],
                  calls_made := calls_made (waiting k) @
                    map (Pair Extension_2) (extension_2_on_cmd test_cmd_from_1) \<rparr>"
  by (simp add: deliver_def waiting_def after_callback_def extension_2_on_cmd_def
      commands_sent_def close_requested_def route_def test_cmd_from_1_def test_cmd_from_2_def)

lemma concat_replicate_Suc_end:
  "concat (replicate (Suc k) r) = concat (replicate k r) @ r"
  by (induction k) simp_all

lemma round_trip_resend:
  assumes "k < 100"
  shows "deliver (deliver (waiting k)) = waiting (Suc k)"
proof -
  have "deliver (deliver (waiting k)) =
     \<lparr> cnt = Suc k, in_flight = [(Extension_2, test_cmd_from_1)],
       calls_made = (start_calls @ concat (replicate k resend_round)) @ resend_round,
       exit_status = None \<rparr>"
    using assms
    by (simp add: deliver_to_extension_2)
       (simp add: deliver_def waiting_def after_callback_def extension_1_on_cmd_def
         extension_2_on_cmd_def commands_sent_def close_requested_def route_def
         test_cmd_from_1_def test_cmd_from_2_def resend_round_def)
  then show ?thesis
    by (simp only: waiting_def concat_replicate_Suc_end append_assoc)
qed

lemma round_trips_waiting: "n \<le> 100 \<Longrightarrow> round_trips n app_start = waiting n"
proof (induction n)
  case 0
  then show ?case by (simp add: app_start_waiting)
next
  case (Suc n)
  then show ?case by (simp add: round_trip_resend)
qed

lemma round_trip_close: "deliver (deliver (waiting 100)) = exited"
  by (simp add: deliver_to_extension_2)
     (simp add: deliver_def waiting_def after_callback_def extension_1_on_cmd_def
       extension_2_on_cmd_def commands_sent_def close_requested_def route_def app_close_def
       test_cmd_from_1_def test_cmd_from_2_def close_app_def closing_round_def exited_def)

lemma round_trips_101: "round_trips 101 app_start = exited"
proof -
  have "round_trips (Suc 100) app_start = deliver (deliver (round_trips 100 app_start))"
    by (simp only: round_trips.simps)
  then show ?thesis
    by (simp add: round_trips_waiting round_trip_close)
qed

lemma run_exited: "exit_status a \<noteq> None \<Longrightarrow> run fuel a = Some a"
  by (cases fuel) simp_all

lemma run_round_trip:
  assumes "k \<le> 100"
  shows "run (Suc (Suc fuel)) (waiting k) = run fuel (deliver (deliver (waiting k)))"
proof -
  have "exit_status (waiting k) = None" by (simp add: waiting_def)
  moreover have "exit_status (deliver (waiting k)) = None"
    by (simp add: deliver_to_extension_2) (simp add: waiting_def)
  ultimately show ?thesis by simp
qed

lemma run_from_waiting:
  "j \<le> 101 \<Longrightarrow> run (2 * j + fuel) (round_trips (101 - j) app_start) = Some exited"
proof (induction j)
  case 0
  then show ?case
    by (simp add: round_trips_101 run_exited exited_def)
next
  case (Suc j)
  then have le: "100 - j \<le> 100" and j: "j \<le> 101" by simp_all
  have next_round: "101 - j = Suc (100 - j)" using Suc.prems by simp
  have "run (2 * Suc j + fuel) (round_trips (101 - Suc j) app_start) =
        run (Suc (Suc (2 * j + fuel))) (waiting (100 - j))"
    using le by (simp add: round_trips_waiting)
  also have "\<dots> = run (2 * j + fuel) (deliver (deliver (waiting (100 - j))))"
    using le by (rule run_round_trip)
  also have "deliver (deliver (waiting (100 - j))) = round_trips (101 - j) app_start"
    using le by (simp only: next_round round_trips.simps round_trips_waiting)
  finally show ?case using Suc.IH [OF j] by simp
qed

lemma sent_by_sent_in: "sent_by ext a = sent_in ext (calls_made a)"
  by (simp add: sent_by_def sent_in_def)

lemma sent_by_waiting:
  "sent_by Extension_1 (waiting n) = replicate (Suc n) test_cmd_from_1"
  "sent_by Extension_2 (waiting n) = replicate n test_cmd_from_2"
proof -
  have a: "sent_by ext (waiting n) =
           sent_in ext start_calls @ concat (replicate n (sent_in ext resend_round))" for ext
    by (simp add: sent_by_sent_in waiting_def sent_in_append sent_in_rounds)
  have b: "sent_in Extension_1 start_calls = [test_cmd_from_1]"
    "sent_in Extension_2 start_calls = []"
    by (simp_all add: sent_in_def start_calls_def commands_sent_def)
  show "sent_by Extension_1 (waiting n) = replicate (Suc n) test_cmd_from_1"
    by (simp add: a b sent_in_resend_round concat_replicate_single)
  show "sent_by Extension_2 (waiting n) = replicate n test_cmd_from_2"
    by (simp add: a b sent_in_resend_round concat_replicate_single)
qed

lemma sent_by_exited:
  "sent_by Extension_1 exited = replicate 101 test_cmd_from_1 @ [close_app]"
  "sent_by Extension_2 exited = replicate 101 test_cmd_from_2"
proof -
  let ?tail = "[(Extension_2, on_stop_done), (Extension_2, on_deinit_done),
          (Extension_1, on_stop_done), (Extension_1, on_deinit_done)]"
  have a: "sent_by ext exited =
           sent_in ext start_calls @ concat (replicate 100 (sent_in ext resend_round)) @
           sent_in ext closing_round @ sent_in ext ?tail" for ext
    by (simp add: sent_by_sent_in exited_def sent_in_append sent_in_rounds)
  have b: "sent_in Extension_1 start_calls = [test_cmd_from_1]"
    "sent_in Extension_2 start_calls = []"
    "sent_in Extension_1 ?tail = []" "sent_in Extension_2 ?tail = []"
    by (simp_all add: sent_in_def start_calls_def commands_sent_def)
  have c: "replicate 101 x = x # replicate 100 x" "replicate 101 x = replicate 100 x @ [x]" for x :: cpp_cmd
  proof -
    have "replicate (Suc 100) x = x # replicate 100 x" by (simp only: replicate_Suc)
    then show "replicate 101 x = x # replicate 100 x" by simp
    have "replicate (Suc 100) x = replicate 100 x @ [x]" by (simp only: replicate_Suc replicate_append_same)
    then show "replicate 101 x = replicate 100 x @ [x]" by simp
  qed
  show "sent_by Extension_1 exited = replicate 101 test_cmd_from_1 @ [close_app]"
    by (simp add: a b sent_in_resend_round sent_in_closing_round concat_replicate_single c(1))
  show "sent_by Extension_2 exited = replicate 101 test_cmd_from_2"
    by (simp add: a b sent_in_resend_round sent_in_closing_round concat_replicate_single c(2))
qed

text \<open>
  C9, as amended. Extension 1 sends \<^verbatim>\<open>test_cmd_from_1\<close> from \<^verbatim>\<open>on_start\<close>.
  Extension 2 answers each \<^verbatim>\<open>test_cmd_from_1\<close> by returning OK and then sending
  \<^verbatim>\<open>test_cmd_from_2\<close>. Extension 1 answers \<^verbatim>\<open>test_cmd_from_2\<close> by returning OK
  and then, while its counter is below 100, counting and sending \<^verbatim>\<open>test_cmd_from_1\<close>
  again, and otherwise sending CloseApp to the one destination with the empty app uri.
  So after each of the first 100 round trips the app is still running with the next
  \<^verbatim>\<open>test_cmd_from_1\<close> sent, and it is the 101st round trip, the first being the one
  opened by \<^verbatim>\<open>on_start\<close>, that ends with exactly one CloseApp, after which the
  process has exited 0 and both extensions have made their \<^verbatim>\<open>on_deinit_done\<close>
  call. The run ends there for any fuel of at least 202 deliveries.
\<close>

theorem ping_pong_closes_after_101_round_trips:
  "extension_1_on_start = [on_start_done, send_cmd test_cmd_from_1] \<and>
   extension_2_on_cmd test_cmd_from_1 =
     [TEN_ENV_LOG_INFO ''test_cmd_from_1 received with detailed fields''
        (Some (cmd_property test_cmd_from_1)),
      return_result TEN_STATUS_CODE_OK ''test_cmd_from_1'',
      ten_random_sleep_range_ms 1000 2000,
      TEN_ENV_LOG_INFO ''test_cmd_from_2 sent'' None,
      send_cmd test_cmd_from_2] \<and>
   (\<forall>k < 100. extension_1_on_cmd k test_cmd_from_2 =
      (Suc k,
       [TEN_ENV_LOG_INFO ''test_cmd_from_2 received with detailed fields''
          (Some (cmd_property test_cmd_from_2)),
        return_result TEN_STATUS_CODE_OK ''test_cmd_from_2'',
        ten_random_sleep_range_ms 1000 2000,
        TEN_ENV_LOG_INFO ''test_cmd_from_1 sent'' None,
        send_cmd test_cmd_from_1])) \<and>
   (\<forall>k \<ge> 100. extension_1_on_cmd k test_cmd_from_2 =
      (k,
       [TEN_ENV_LOG_INFO ''test_cmd_from_2 received with detailed fields''
          (Some (cmd_property test_cmd_from_2)),
        return_result TEN_STATUS_CODE_OK ''test_cmd_from_2'',
        ten_random_sleep_range_ms 1000 2000,
        send_cmd close_app])) \<and>
   cmd_type close_app = TEN_MSG_TYPE_CMD_CLOSE_APP \<and>
   cmd_dests close_app = [\<lparr> app_uri = [], graph_id = [], extension_name = [] \<rparr>] \<and>
   (\<forall>n \<le> 100.
      exit_status (round_trips n app_start) = None \<and>
      cnt (round_trips n app_start) = n \<and>
      in_flight (round_trips n app_start) = [(Extension_2, test_cmd_from_1)] \<and>
      sent_by Extension_1 (round_trips n app_start) = replicate (Suc n) test_cmd_from_1 \<and>
      sent_by Extension_2 (round_trips n app_start) = replicate n test_cmd_from_2) \<and>
   exit_status (round_trips 101 app_start) = Some 0 \<and>
   in_flight (round_trips 101 app_start) = [] \<and>
   sent_by Extension_1 (round_trips 101 app_start) =
     replicate 101 test_cmd_from_1 @ [close_app] \<and>
   sent_by Extension_2 (round_trips 101 app_start) = replicate 101 test_cmd_from_2 \<and>
   (Extension_1, on_deinit_done) \<in> set (calls_made (round_trips 101 app_start)) \<and>
   (Extension_2, on_deinit_done) \<in> set (calls_made (round_trips 101 app_start)) \<and>
   (\<forall>fuel \<ge> 202. run fuel app_start = Some (round_trips 101 app_start))"
proof -
  have h1: "extension_1_on_start = [on_start_done, send_cmd test_cmd_from_1]"
    by (simp add: extension_1_on_start_def)
  have h2: "extension_2_on_cmd test_cmd_from_1 =
     [TEN_ENV_LOG_INFO ''test_cmd_from_1 received with detailed fields''
        (Some (cmd_property test_cmd_from_1)),
      return_result TEN_STATUS_CODE_OK ''test_cmd_from_1'',
      ten_random_sleep_range_ms 1000 2000,
      TEN_ENV_LOG_INFO ''test_cmd_from_2 sent'' None,
      send_cmd test_cmd_from_2]"
    by (simp add: extension_2_on_cmd_def test_cmd_from_1_def)
  have h3: "\<forall>k < 100. extension_1_on_cmd k test_cmd_from_2 =
      (Suc k,
       [TEN_ENV_LOG_INFO ''test_cmd_from_2 received with detailed fields''
          (Some (cmd_property test_cmd_from_2)),
        return_result TEN_STATUS_CODE_OK ''test_cmd_from_2'',
        ten_random_sleep_range_ms 1000 2000,
        TEN_ENV_LOG_INFO ''test_cmd_from_1 sent'' None,
        send_cmd test_cmd_from_1])"
    by (simp add: extension_1_on_cmd_def test_cmd_from_2_def)
  have h4: "\<forall>k \<ge> 100. extension_1_on_cmd k test_cmd_from_2 =
      (k,
       [TEN_ENV_LOG_INFO ''test_cmd_from_2 received with detailed fields''
          (Some (cmd_property test_cmd_from_2)),
        return_result TEN_STATUS_CODE_OK ''test_cmd_from_2'',
        ten_random_sleep_range_ms 1000 2000,
        send_cmd close_app])"
    by (simp add: extension_1_on_cmd_def test_cmd_from_2_def)
  have h5: "cmd_type close_app = TEN_MSG_TYPE_CMD_CLOSE_APP"
    "cmd_dests close_app = [\<lparr> app_uri = [], graph_id = [], extension_name = [] \<rparr>]"
    by (simp_all add: close_app_def)
  have h6: "\<forall>n \<le> 100.
      exit_status (round_trips n app_start) = None \<and>
      cnt (round_trips n app_start) = n \<and>
      in_flight (round_trips n app_start) = [(Extension_2, test_cmd_from_1)] \<and>
      sent_by Extension_1 (round_trips n app_start) = replicate (Suc n) test_cmd_from_1 \<and>
      sent_by Extension_2 (round_trips n app_start) = replicate n test_cmd_from_2"
    by (simp add: round_trips_waiting sent_by_waiting) (simp add: waiting_def)
  have h7: "exit_status (round_trips 101 app_start) = Some 0"
    "in_flight (round_trips 101 app_start) = []"
    "(Extension_1, on_deinit_done) \<in> set (calls_made (round_trips 101 app_start))"
    "(Extension_2, on_deinit_done) \<in> set (calls_made (round_trips 101 app_start))"
    by (simp_all add: round_trips_101 exited_def)
  have h8: "sent_by Extension_1 (round_trips 101 app_start) =
     replicate 101 test_cmd_from_1 @ [close_app]"
    "sent_by Extension_2 (round_trips 101 app_start) = replicate 101 test_cmd_from_2"
    by (simp_all only: round_trips_101 sent_by_exited)
  have h9: "\<forall>fuel \<ge> 202. run fuel app_start = Some (round_trips 101 app_start)"
  proof (intro allI impI)
    fix fuel :: nat assume "202 \<le> fuel"
    then obtain f where "fuel = 202 + f"
      using le_Suc_ex by blast
    then have f: "fuel = 2 * 101 + f" by simp
    have "run (2 * 101 + f) (round_trips (101 - 101) app_start) = Some exited"
      by (rule run_from_waiting) simp
    then show "run fuel app_start = Some (round_trips 101 app_start)"
      by (simp add: f round_trips_101)
  qed
  show ?thesis
    using h1 h2 h3 h4 h5 h6 h7 h8 h9 by blast
qed

theorem ping_pong_closes_after_101_round_trips_witness:
  "extension_1_on_cmd 99 test_cmd_from_2 =
      (100,
       [TEN_ENV_LOG_INFO ''test_cmd_from_2 received with detailed fields''
          (Some (cmd_property test_cmd_from_2)),
        return_result TEN_STATUS_CODE_OK ''test_cmd_from_2'',
        ten_random_sleep_range_ms 1000 2000,
        TEN_ENV_LOG_INFO ''test_cmd_from_1 sent'' None,
        send_cmd test_cmd_from_1]) \<and>
   extension_1_on_cmd 100 test_cmd_from_2 =
      (100,
       [TEN_ENV_LOG_INFO ''test_cmd_from_2 received with detailed fields''
          (Some (cmd_property test_cmd_from_2)),
        return_result TEN_STATUS_CODE_OK ''test_cmd_from_2'',
        ten_random_sleep_range_ms 1000 2000,
        send_cmd close_app]) \<and>
   cnt (round_trips 3 app_start) = 3 \<and>
   sent_by Extension_1 (round_trips 3 app_start) =
     [test_cmd_from_1, test_cmd_from_1, test_cmd_from_1, test_cmd_from_1] \<and>
   run 202 app_start = Some (round_trips 101 app_start) \<and>
   run 1000 app_start = Some (round_trips 101 app_start)"
proof -
  note t = ping_pong_closes_after_101_round_trips
  have a: "extension_1_on_cmd 99 test_cmd_from_2 =
      (100,
       [TEN_ENV_LOG_INFO ''test_cmd_from_2 received with detailed fields''
          (Some (cmd_property test_cmd_from_2)),
        return_result TEN_STATUS_CODE_OK ''test_cmd_from_2'',
        ten_random_sleep_range_ms 1000 2000,
        TEN_ENV_LOG_INFO ''test_cmd_from_1 sent'' None,
        send_cmd test_cmd_from_1])"
    using t [THEN conjunct2, THEN conjunct2, THEN conjunct1, rule_format, of 99] by simp
  have b: "extension_1_on_cmd 100 test_cmd_from_2 =
      (100,
       [TEN_ENV_LOG_INFO ''test_cmd_from_2 received with detailed fields''
          (Some (cmd_property test_cmd_from_2)),
        return_result TEN_STATUS_CODE_OK ''test_cmd_from_2'',
        ten_random_sleep_range_ms 1000 2000,
        send_cmd close_app])"
    using t [THEN conjunct2, THEN conjunct2, THEN conjunct2, THEN conjunct1, rule_format, of 100]
    by simp
  have c: "cnt (round_trips 3 app_start) = 3 \<and>
   sent_by Extension_1 (round_trips 3 app_start) =
     [test_cmd_from_1, test_cmd_from_1, test_cmd_from_1, test_cmd_from_1]"
  proof -
    have "(3::nat) \<le> 100" by simp
    moreover have "\<forall>n \<le> 100.
      exit_status (round_trips n app_start) = None \<and>
      cnt (round_trips n app_start) = n \<and>
      in_flight (round_trips n app_start) = [(Extension_2, test_cmd_from_1)] \<and>
      sent_by Extension_1 (round_trips n app_start) = replicate (Suc n) test_cmd_from_1 \<and>
      sent_by Extension_2 (round_trips n app_start) = replicate n test_cmd_from_2"
      using t by blast
    ultimately have "cnt (round_trips 3 app_start) = 3"
      "sent_by Extension_1 (round_trips 3 app_start) = replicate (Suc 3) test_cmd_from_1"
      by blast+
    moreover have "replicate (Suc 3) x = [x, x, x, x]" for x :: cpp_cmd
      by (simp add: numeral_3_eq_3)
    ultimately show ?thesis by simp
  qed
  have d: "\<forall>fuel \<ge> 202. run fuel app_start = Some (round_trips 101 app_start)"
    using t by blast
  have "run 202 app_start = Some (round_trips 101 app_start)"
    "run 1000 app_start = Some (round_trips 101 app_start)"
    using d by simp_all
  then show ?thesis using a b c by blast
qed

text \<open>
  C9 as the claim states it fails: after 100 round trips the process has not exited and
  extension 1 has sent no CloseApp; it has sent \<^verbatim>\<open>test_cmd_from_1\<close> for the 101st
  time, and that command is in flight to extension 2.
\<close>

theorem ping_pong_100_round_trips_counterexample:
  "exit_status (round_trips 100 app_start) = None \<and>
   cnt (round_trips 100 app_start) = 100 \<and>
   sent_by Extension_1 (round_trips 100 app_start) = replicate 101 test_cmd_from_1 \<and>
   in_flight (round_trips 100 app_start) = [(Extension_2, test_cmd_from_1)] \<and>
   test_cmd_from_1 \<noteq> close_app"
proof -
  have "round_trips 100 app_start = waiting 100"
    by (rule round_trips_waiting) simp
  moreover have "sent_by Extension_1 (waiting 100) = replicate (Suc 100) test_cmd_from_1"
    by (rule sent_by_waiting)
  moreover have "test_cmd_from_1 \<noteq> close_app"
    by (simp add: test_cmd_from_1_def close_app_def)
  ultimately show ?thesis
    by (simp add: waiting_def)
qed

section \<open>Category filters of the logger\<close>

lemma glob_match_literal:
  "CHR ''*'' \<notin> set p \<Longrightarrow> CHR ''?'' \<notin> set p \<Longrightarrow> glob_match p s = (s = p)"
proof (induction p arbitrary: s)
  case Nil
  then show ?case by simp
next
  case (Cons a p)
  then show ?case by (cases s) auto
qed

lemma glob_ten_runtime: "glob_match ''ten:runtime'' s = (s = ''ten:runtime'')"
  by (rule glob_match_literal) simp_all




lemma handlers_A_B_either_reading:
  "handler_emits_passing_over handler_A ev = handler_emits handler_A ev"
  "handler_emits_passing_over handler_B ev = handler_emits handler_B ev"
  by (auto simp: handler_A_def handler_B_def level_passes_def category_matches_def
      glob_ten_runtime)




end
